theory Spec2Isabelle
  imports Complex_Main "HOL-Library.Sublist"
begin

section \<open>Numbers\<close>

text \<open>
  The bot computes with Python and numpy floats. In the embedding of the source below,
  finite floats are reals and every operation is exact; the position arithmetic is
  given a second time further down with every operation rounded to a double, for the
  properties that rounding decides. The non-finite values are kept,
  because the source tests for them (\<^verbatim>\<open>pd.isna\<close>, \<^verbatim>\<open>fillna\<close>) and because numpy
  division by zero returns them instead of raising: \<open>NaN\<close> also stands for a cell
  that is missing (\<^verbatim>\<open>current.get(key)\<close> returns \<^verbatim>\<open>None\<close>, which \<^verbatim>\<open>safe_value\<close>
  treats like NaN).
\<close>

datatype pyfloat = Fin real | PInf | NInf | NaN

definition isna :: "pyfloat \<Rightarrow> bool" where
  "isna x = (x = NaN)"

text \<open>\<^verbatim>\<open>a < b\<close> and \<^verbatim>\<open>a <= b\<close> on floats: false as soon as one side is NaN.\<close>

definition fless :: "pyfloat \<Rightarrow> pyfloat \<Rightarrow> bool" where
  "fless a b =
     (case a of
        Fin x \<Rightarrow> (case b of Fin y \<Rightarrow> x < y | PInf \<Rightarrow> True | _ \<Rightarrow> False)
      | NInf \<Rightarrow> (case b of Fin y \<Rightarrow> True | PInf \<Rightarrow> True | _ \<Rightarrow> False)
      | _ \<Rightarrow> False)"

definition fle :: "pyfloat \<Rightarrow> pyfloat \<Rightarrow> bool" where
  "fle a b = (fless a b \<or> (a = b \<and> a \<noteq> NaN))"

definition fneg :: "pyfloat \<Rightarrow> pyfloat" where
  "fneg a = (case a of Fin x \<Rightarrow> Fin (- x) | PInf \<Rightarrow> NInf | NInf \<Rightarrow> PInf | NaN \<Rightarrow> NaN)"

definition fabs :: "pyfloat \<Rightarrow> pyfloat" where
  "fabs a = (case a of Fin x \<Rightarrow> Fin \<bar>x\<bar> | PInf \<Rightarrow> PInf | NInf \<Rightarrow> PInf | NaN \<Rightarrow> NaN)"

definition fadd :: "pyfloat \<Rightarrow> pyfloat \<Rightarrow> pyfloat" where
  "fadd a b =
     (case a of
        Fin x \<Rightarrow> (case b of Fin y \<Rightarrow> Fin (x + y) | _ \<Rightarrow> b)
      | PInf \<Rightarrow> (case b of NInf \<Rightarrow> NaN | NaN \<Rightarrow> NaN | _ \<Rightarrow> PInf)
      | NInf \<Rightarrow> (case b of PInf \<Rightarrow> NaN | NaN \<Rightarrow> NaN | _ \<Rightarrow> NInf)
      | NaN \<Rightarrow> NaN)"

definition fsub :: "pyfloat \<Rightarrow> pyfloat \<Rightarrow> pyfloat" where
  "fsub a b = fadd a (fneg b)"

text \<open>\<^verbatim>\<open>a * k\<close> for a finite constant \<open>k\<close>.\<close>

definition fmul :: "pyfloat \<Rightarrow> real \<Rightarrow> pyfloat" where
  "fmul a k =
     (case a of
        Fin x \<Rightarrow> Fin (x * k)
      | PInf \<Rightarrow> (if 0 < k then PInf else if k < 0 then NInf else NaN)
      | NInf \<Rightarrow> (if 0 < k then NInf else if k < 0 then PInf else NaN)
      | NaN \<Rightarrow> NaN)"

text \<open>
  numpy's \<^verbatim>\<open>a / b\<close>: a zero divisor gives an infinity or NaN, never an exception.
\<close>

definition fdiv :: "pyfloat \<Rightarrow> pyfloat \<Rightarrow> pyfloat" where
  "fdiv a b =
     (case a of
        Fin x \<Rightarrow>
          (case b of
             Fin y \<Rightarrow> (if y \<noteq> 0 then Fin (x / y)
                        else if 0 < x then PInf else if x < 0 then NInf else NaN)
           | NaN \<Rightarrow> NaN
           | _ \<Rightarrow> Fin 0)
      | PInf \<Rightarrow> (case b of Fin y \<Rightarrow> (if 0 \<le> y then PInf else NInf) | _ \<Rightarrow> NaN)
      | NInf \<Rightarrow> (case b of Fin y \<Rightarrow> (if 0 \<le> y then NInf else PInf) | _ \<Rightarrow> NaN)
      | NaN \<Rightarrow> NaN)"

text \<open>\<^verbatim>\<open>x if not pd.isna(x) else d\<close>, and \<^verbatim>\<open>Series.fillna\<close> with a scalar or a series.\<close>

definition fillna :: "pyfloat \<Rightarrow> pyfloat \<Rightarrow> pyfloat" where
  "fillna x d = (if isna x then d else x)"

definition fillna_series :: "pyfloat list \<Rightarrow> pyfloat list \<Rightarrow> pyfloat list" where
  "fillna_series xs ds = map2 fillna xs ds"

section \<open>Series operations of pandas\<close>

text \<open>\<^verbatim>\<open>Series.mean()\<close> of a series without NaN (an empty series has mean NaN).\<close>

definition mean :: "real list \<Rightarrow> pyfloat" where
  "mean xs = fdiv (Fin (sum_list xs)) (Fin (real (length xs)))"

text \<open>\<^verbatim>\<open>Series.mean()\<close> in general: NaN cells are skipped, infinities are summed.\<close>

definition nanmean :: "pyfloat list \<Rightarrow> pyfloat" where
  "nanmean xs =
     (let ys = filter (\<lambda>x. \<not> isna x) xs
      in if ys = [] then NaN
         else fdiv (foldl fadd (Fin 0) ys) (Fin (real (length ys))))"

text \<open>
  \<^verbatim>\<open>Series.rolling(w).mean()\<close> and \<^verbatim>\<open>.std()\<close> (sample deviation, \<^verbatim>\<open>ddof=1\<close>):
  row \<open>i\<close> is NaN until it has \<open>w\<close> values behind it.
\<close>

definition window :: "nat \<Rightarrow> real list \<Rightarrow> nat \<Rightarrow> real list" where
  "window w xs i = take w (drop (Suc i - w) xs)"

definition rolling_mean :: "nat \<Rightarrow> real list \<Rightarrow> pyfloat list" where
  "rolling_mean w xs =
     map (\<lambda>i. if Suc i < w then NaN else mean (window w xs i)) [0..<length xs]"

definition sample_std :: "real list \<Rightarrow> pyfloat" where
  "sample_std ws =
     (if length ws < 2 then NaN
      else let m = sum_list ws / real (length ws)
           in Fin (sqrt (sum_list (map (\<lambda>x. (x - m)\<^sup>2) ws) / real (length ws - 1))))"

definition rolling_std :: "nat \<Rightarrow> real list \<Rightarrow> pyfloat list" where
  "rolling_std w xs =
     map (\<lambda>i. if Suc i < w then NaN else sample_std (window w xs i)) [0..<length xs]"

text \<open>\<^verbatim>\<open>Series.diff()\<close> and \<^verbatim>\<open>Series.pct_change(n)\<close>, which is \<^verbatim>\<open>s / s.shift(n) - 1\<close>.\<close>

definition diff :: "real list \<Rightarrow> pyfloat list" where
  "diff xs = map (\<lambda>i. if i < 1 then NaN else Fin (xs ! i - xs ! (i - 1))) [0..<length xs]"

definition pct_change :: "nat \<Rightarrow> real list \<Rightarrow> pyfloat list" where
  "pct_change n xs =
     map (\<lambda>i. if i < n then NaN
               else fsub (fdiv (Fin (xs ! i)) (Fin (xs ! (i - n)))) (Fin 1))
         [0..<length xs]"

section \<open>Data\<close>

text \<open>
  One row of the data frame: the OHLCV columns that \<^verbatim>\<open>get_ohlcv_data\<close> builds from
  the exchange's numbers, and the indicator columns that \<^verbatim>\<open>calculate_indicators\<close>
  adds (NaN where a cell is NaN or the column is absent).
\<close>

record row =
  high :: real
  low :: real
  close :: real
  volume :: real
  MA_10 :: pyfloat
  MA_20 :: pyfloat
  MA_50 :: pyfloat
  RSI_7 :: pyfloat
  RSI_14 :: pyfloat
  MACD :: pyfloat
  MACD_Signal :: pyfloat
  Volume_Ratio :: pyfloat
  BB_Upper :: pyfloat
  BB_Middle :: pyfloat
  Stoch_K :: pyfloat
  Stoch_D :: pyfloat
  Momentum :: pyfloat
  Price_Change :: pyfloat

text \<open>
  \<^verbatim>\<open>self.position\<close> (a dict or \<^verbatim>\<open>None\<close>); \<^verbatim>\<open>entry_time\<close> is wall-clock time and
  is left out.
\<close>

record open_position =
  entry_price :: real
  size_p :: real
  stop_loss :: real
  take_profit :: real
  type_p :: string
  signal_strength :: int
  symbol :: string

text \<open>The three shapes of \<^verbatim>\<open>trade_info\<close> appended to \<^verbatim>\<open>self.trades\<close>.\<close>

datatype trade =
  Buy_info string real real int real real
    \<comment> \<open>symbol, price, size, signal_strength, take_profit_pct, stop_loss_pct\<close>
| Sell_info string real real real real
    \<comment> \<open>symbol, price, size, profit_loss, entry_price\<close>
| Close_info string real real real real string
    \<comment> \<open>symbol, price, size, profit_loss, entry_price, reason\<close>

fun profit_loss :: "trade \<Rightarrow> real option" where
  "profit_loss (Buy_info s p z g t l) = None"
| "profit_loss (Sell_info s p z pl e) = Some pl"
| "profit_loss (Close_info s p z pl e r) = Some pl"

text \<open>The fields of \<^verbatim>\<open>AdvancedTradingBot\<close> that the trading core reads and writes.\<close>

record bot =
  initial_balance :: real
  balance :: real
  risk_per_trade :: real
  max_drawdown :: real
  position :: "open_position option"
  trades :: "trade list"
  total_trades :: int
  winning_trades :: int

text \<open>
  What \<^verbatim>\<open>get_ohlcv_data(symbol, '1h', 100)\<close> returns at the moment of a call:
  the frame, or \<^verbatim>\<open>None\<close> when the fetch failed.
\<close>

type_synonym market = "string \<Rightarrow> row list option"

section \<open>Potential scorer\<close>

text \<open>\<^verbatim>\<open>calculate_rsi\<close> (lines 242-262).\<close>

definition calculate_rsi :: "real list \<Rightarrow> nat \<Rightarrow> pyfloat list" where
  "calculate_rsi prices period =
     (if length prices < period then replicate (length prices) (Fin 50)
      else
        let delta = diff prices;
            gain = map (\<lambda>d. case fillna (if fless (Fin 0) d then d else Fin 0) (Fin 0) of
                               Fin g \<Rightarrow> g | _ \<Rightarrow> 0) delta;
            loss = map (\<lambda>d. case fillna (fneg (if fless d (Fin 0) then d else Fin 0)) (Fin 0) of
                               Fin l \<Rightarrow> l | _ \<Rightarrow> 0) delta;
            avg_gain = rolling_mean period gain;
            avg_loss = rolling_mean period loss;
            rs = map2 (\<lambda>g l. fdiv g (fillna (if l = Fin 0 then NaN else l) (Fin 1)))
                   avg_gain avg_loss;
            rsi = map (\<lambda>r. fsub (Fin 100) (fdiv (Fin 100) (fadd (Fin 1) r))) rs
        in map (\<lambda>r. fillna r (Fin 50)) rsi)"

text \<open>Python's \<^verbatim>\<open>max(0, min(100, x))\<close>: \<^verbatim>\<open>min\<close> and \<^verbatim>\<open>max\<close> keep their first
  argument unless the second compares smaller (greater), so NaN is clamped to 100.\<close>

definition clamp_0_100 :: "pyfloat \<Rightarrow> real" where
  "clamp_0_100 x =
     (case x of Fin v \<Rightarrow> max 0 (min 100 v) | PInf \<Rightarrow> 100 | NInf \<Rightarrow> 0 | NaN \<Rightarrow> 100)"

text \<open>The first summand of \<^verbatim>\<open>profit_potential\<close> (lines 116 and 129).\<close>

definition volatility :: "row list \<Rightarrow> pyfloat" where
  "volatility df = fdiv (mean (map (\<lambda>r. high r - low r) df)) (mean (map close df))"

definition volatility_term :: "row list \<Rightarrow> pyfloat" where
  "volatility_term df = fmul (fillna (volatility df) (Fin 0.02)) 1000"

text \<open>\<^verbatim>\<open>analyze_coin_potential\<close> (lines 108-139), on the frame the fetch returned.\<close>

definition analyze_coin_potential :: "row list option \<Rightarrow> real" where
  "analyze_coin_potential fetched =
     (case fetched of
        None \<Rightarrow> 0
      | Some df \<Rightarrow>
          if length df < 50 then 0
          else
            let volume_pct = pct_change 5 (map volume df);
                volume_trend = (if \<not> list_all isna volume_pct then nanmean volume_pct else Fin 0);
                price_pct = pct_change 10 (map close df);
                price_trend = (if \<not> list_all isna price_pct then fabs (nanmean price_pct) else Fin 0);
                rsi_values = calculate_rsi (map close df) 14;
                rsi = (if 0 < length rsi_values \<and> \<not> isna (last rsi_values)
                       then last rsi_values else Fin 50);
                profit_potential =
                  fadd (fadd (fadd (volatility_term df)
                                   (fmul (fillna volume_trend (Fin 0)) 500))
                             (fmul (fillna price_trend (Fin 0)) 1000))
                       (fmul (fsub (Fin 50) (fabs (fsub (Fin 50) rsi))) 0.5)
            in clamp_0_100 profit_potential)"

section \<open>Bollinger bands\<close>

text \<open>\<^verbatim>\<open>calculate_bollinger_bands\<close> (lines 279-292), with \<^verbatim>\<open>period=20, std=2\<close> by default.\<close>

definition calculate_bollinger_bands ::
    "real list \<Rightarrow> nat \<Rightarrow> real \<Rightarrow> pyfloat list \<times> pyfloat list" where
  "calculate_bollinger_bands prices period std =
     (if length prices < period
      then (replicate (length prices) (Fin 0), replicate (length prices) (Fin 0))
      else
        let sma = rolling_mean period prices;
            rolling_sd = rolling_std period prices;
            upper_band = map2 (\<lambda>m s. fadd m (fmul s std)) sma rolling_sd;
            lower_band = map2 (\<lambda>m s. fsub m (fmul s std)) sma rolling_sd
        in (fillna_series upper_band (map Fin prices),
            fillna_series lower_band (map Fin prices)))"

text \<open>
  The \<^verbatim>\<open>BB_Upper\<close> and \<^verbatim>\<open>BB_Lower\<close> columns as \<^verbatim>\<open>calculate_indicators\<close> leaves
  them (line 204, then the fill loop of lines 224-235, whose last branch fills what is
  still NaN with the close).
\<close>

definition calculate_indicators_BB :: "real list \<Rightarrow> pyfloat list \<times> pyfloat list" where
  "calculate_indicators_BB closes =
     (let (upper, lower) = calculate_bollinger_bands closes 20 2
      in (fillna_series upper (map Fin closes), fillna_series lower (map Fin closes)))"

section \<open>Signal engine\<close>

abbreviation fgt :: "pyfloat \<Rightarrow> pyfloat \<Rightarrow> bool" where
  "fgt a b \<equiv> fless b a"

abbreviation fge :: "pyfloat \<Rightarrow> pyfloat \<Rightarrow> bool" where
  "fge a b \<equiv> fle b a"

text \<open>The inner function \<^verbatim>\<open>safe_value\<close> (lines 318-326), applied to the cell it reads.\<close>

definition safe_value :: "pyfloat \<Rightarrow> pyfloat \<Rightarrow> pyfloat" where
  "safe_value v dflt = (if isna v then dflt else v)"

text \<open>Python's \<^verbatim>\<open>sum\<close> of a list of booleans.\<close>

definition py_sum :: "bool list \<Rightarrow> int" where
  "py_sum bs = sum_list (map (\<lambda>b. if b then 1 else 0) bs)"

text \<open>\<^verbatim>\<open>any(high_vol_coin in symbol for high_vol_coin in ['SOL', 'AVAX', 'ADA', 'DOT'])\<close>\<close>

definition high_vol :: "string \<Rightarrow> bool" where
  "high_vol symb = list_ex (\<lambda>high_vol_coin. sublist high_vol_coin symb)
                    [''SOL'', ''AVAX'', ''ADA'', ''DOT'']"

text \<open>
  \<^verbatim>\<open>aggressive_profit_strategy\<close> (lines 309-469). The two condition lists are the
  lists the source appends to, in its order.
\<close>

definition aggressive_profit_strategy :: "bot \<Rightarrow> row list option \<Rightarrow> string \<Rightarrow> string \<times> int" where
  "aggressive_profit_strategy st df symb =
     (case df of
        None \<Rightarrow> (''HOLD'', 0)
      | Some rows \<Rightarrow>
          if length rows < 50 then (''HOLD'', 0)
          else
            let current = last rows;
                ma_10 = safe_value (MA_10 current) (Fin 0);
                ma_20 = safe_value (MA_20 current) (Fin 0);
                ma_50 = safe_value (MA_50 current) (Fin 0);
                rsi_7 = safe_value (RSI_7 current) (Fin 50);
                rsi_14 = safe_value (RSI_14 current) (Fin 50);
                macd = safe_value (MACD current) (Fin 0);
                macd_signal = safe_value (MACD_Signal current) (Fin 0);
                volume_ratio = safe_value (Volume_Ratio current) (Fin 1);
                bb_upper = safe_value (BB_Upper current) (Fin (close current * 1.1));
                bb_middle = safe_value (BB_Middle current) (Fin (close current));
                stoch_k = safe_value (Stoch_K current) (Fin 50);
                stoch_d = safe_value (Stoch_D current) (Fin 50);
                momentum = safe_value (Momentum current) (Fin 0);
                price_change = safe_value (Price_Change current) (Fin 0);
                current_close = safe_value (Fin (close current)) (Fin 0);
                strong_buy_conditions =
                  [fgt ma_10 ma_20 \<and> fgt ma_20 ma_50,
                   fless (Fin 30) rsi_7 \<and> fless rsi_7 (Fin 80),
                   fgt macd macd_signal,
                   fgt volume_ratio (Fin 1.2),
                   fgt current_close (fmul bb_upper 0.98),
                   fgt stoch_k stoch_d \<and> fless stoch_k (Fin 80),
                   fgt momentum (Fin 0),
                   fgt price_change (Fin (- 0.02))];
                strong_sell_conditions =
                  [fless ma_10 ma_20,
                   fgt rsi_14 (Fin 75),
                   fless macd macd_signal,
                   fless volume_ratio (Fin 0.8),
                   fless current_close bb_middle,
                   fless stoch_k stoch_d,
                   fless momentum (Fin 0),
                   (case position st of
                      None \<Rightarrow> False
                    | Some p \<Rightarrow> fge current_close (Fin (entry_price p * 1.08)))];
                buy_score = py_sum strong_buy_conditions * 2;
                buy_score =
                  (if high_vol symb
                   then buy_score + (if fgt volume_ratio (Fin 1.5) then 2 else 0)
                                  + (if fgt (fabs price_change) (Fin 0.05) then 1 else 0)
                   else buy_score);
                sell_score = py_sum strong_sell_conditions
            in if buy_score \<ge> 8 then (''BUY'', buy_score)
               else if sell_score \<ge> 4 \<or>
                       (case position st of
                          None \<Rightarrow> False
                        | Some p \<Rightarrow> fle current_close (Fin (stop_loss p)))
               then (''SELL'', sell_score)
               else (''HOLD'', 0))"

subsection \<open>The decision rule as the specification words it\<close>

text \<open>
  The safe extraction step: every indicator cell of the latest row that is NaN or
  missing is replaced by the default its \<^verbatim>\<open>safe_value\<close> call names.
\<close>

definition safe_row :: "row \<Rightarrow> row" where
  "safe_row r =
     r\<lparr>MA_10 := safe_value (MA_10 r) (Fin 0),
       MA_20 := safe_value (MA_20 r) (Fin 0),
       MA_50 := safe_value (MA_50 r) (Fin 0),
       RSI_7 := safe_value (RSI_7 r) (Fin 50),
       RSI_14 := safe_value (RSI_14 r) (Fin 50),
       MACD := safe_value (MACD r) (Fin 0),
       MACD_Signal := safe_value (MACD_Signal r) (Fin 0),
       Volume_Ratio := safe_value (Volume_Ratio r) (Fin 1),
       BB_Upper := safe_value (BB_Upper r) (Fin (close r * 1.1)),
       BB_Middle := safe_value (BB_Middle r) (Fin (close r)),
       Stoch_K := safe_value (Stoch_K r) (Fin 50),
       Stoch_D := safe_value (Stoch_D r) (Fin 50),
       Momentum := safe_value (Momentum r) (Fin 0),
       Price_Change := safe_value (Price_Change r) (Fin 0)\<rparr>"

text \<open>The eight BUY criteria of the specification, numbered as there.\<close>

definition buy_criteria :: "row \<Rightarrow> bool list" where
  "buy_criteria s =
     [fgt (MA_10 s) (MA_20 s) \<and> fgt (MA_20 s) (MA_50 s),
      fless (Fin 30) (RSI_7 s) \<and> fless (RSI_7 s) (Fin 80),
      fgt (MACD s) (MACD_Signal s),
      fgt (Volume_Ratio s) (Fin 1.2),
      fgt (Fin (close s)) (fmul (BB_Upper s) 0.98),
      fgt (Stoch_K s) (Stoch_D s) \<and> fless (Stoch_K s) (Fin 80),
      fgt (Momentum s) (Fin 0),
      fgt (Price_Change s) (Fin (- 0.02))]"

text \<open>The bonus of an instrument of the high-volatility set.\<close>

definition high_vol_bonus :: "string \<Rightarrow> row \<Rightarrow> int" where
  "high_vol_bonus symb s =
     (if high_vol symb
      then (if fgt (Volume_Ratio s) (Fin 1.5) then 2 else 0)
         + (if fgt (fabs (Price_Change s)) (Fin 0.05) then 1 else 0)
      else 0)"

text \<open>The eight SELL criteria; the last one only counts while a position is open.\<close>

definition sell_criteria :: "open_position option \<Rightarrow> row \<Rightarrow> bool list" where
  "sell_criteria pos s =
     [fless (MA_10 s) (MA_20 s),
      fgt (RSI_14 s) (Fin 75),
      fless (MACD s) (MACD_Signal s),
      fless (Volume_Ratio s) (Fin 0.8),
      fless (Fin (close s)) (BB_Middle s),
      fless (Stoch_K s) (Stoch_D s),
      fless (Momentum s) (Fin 0),
      (case pos of None \<Rightarrow> False | Some p \<Rightarrow> fge (Fin (close s)) (Fin (entry_price p * 1.08)))]"

definition satisfied :: "bool list \<Rightarrow> int" where
  "satisfied cs = int (length (filter (\<lambda>c. c) cs))"

definition buy_score_spec :: "string \<Rightarrow> row \<Rightarrow> int" where
  "buy_score_spec symb s = 2 * satisfied (buy_criteria s) + high_vol_bonus symb s"

definition sell_score_spec :: "open_position option \<Rightarrow> row \<Rightarrow> int" where
  "sell_score_spec pos s = satisfied (sell_criteria pos s)"

definition stop_loss_hit :: "open_position option \<Rightarrow> row \<Rightarrow> bool" where
  "stop_loss_hit pos s = (case pos of None \<Rightarrow> False | Some p \<Rightarrow> close s \<le> stop_loss p)"

definition decision_spec :: "open_position option \<Rightarrow> string \<Rightarrow> row \<Rightarrow> string \<times> int" where
  "decision_spec pos symb s =
     (if buy_score_spec symb s \<ge> 8 then (''BUY'', buy_score_spec symb s)
      else if sell_score_spec pos s \<ge> 4 \<or> stop_loss_hit pos s
      then (''SELL'', sell_score_spec pos s)
      else (''HOLD'', 0))"

section \<open>Position manager\<close>

text \<open>
  \<^verbatim>\<open>calculate_position_size\<close> (lines 471-499). The score comes from
  \<^verbatim>\<open>analyze_coin_potential(symbol)\<close>, which fetches the frame. The one operation that
  can raise is the division by \<^verbatim>\<open>current_price\<close>: on a zero price Python raises
  ZeroDivisionError, the handler returns 0 (with numpy operands the quotient would be an
  infinity of the sign of a negative cap: not a positive size either).
\<close>

definition calculate_position_size :: "market \<Rightarrow> bot \<Rightarrow> real \<Rightarrow> real \<Rightarrow> string \<Rightarrow> real" where
  "calculate_position_size mkt st current_price stop_loss_price symb =
     (let base_risk = balance st * risk_per_trade st;
          profit_potential = analyze_coin_potential (mkt symb);
          base_risk = (if profit_potential > 70 then base_risk * 1.5
                       else if profit_potential > 50 then base_risk * 1.2
                       else base_risk);
          price_diff = \<bar>current_price - stop_loss_price\<bar>
      in if price_diff = 0 then 0
         else
           let position_size = base_risk / price_diff;
               max_position_value = balance st * min 0.15 (0.08 * (profit_potential / 50))
           in if position_size * current_price > max_position_value
              then (if current_price = 0 then 0
                    else max_position_value / current_price)
              else position_size)"

text \<open>
  \<^verbatim>\<open>force_close_position\<close> (lines 603-631). Without a position the subscript
  \<^verbatim>\<open>self.position['type']\<close> raises, and the handler leaves the state as it is.
\<close>

definition force_close_position :: "real \<Rightarrow> string \<Rightarrow> string \<Rightarrow> bot \<Rightarrow> bot" where
  "force_close_position current_price reason symb st =
     (case position st of
        None \<Rightarrow> st
      | Some p \<Rightarrow>
          if type_p p = ''BUY'' then
            let pl = (current_price - entry_price p) * size_p p
            in st\<lparr>balance := balance st + size_p p * current_price,
                  total_trades := total_trades st + 1,
                  winning_trades := (if pl > 0 then winning_trades st + 1
                                     else winning_trades st),
                  trades := trades st @
                    [Close_info symb current_price (size_p p) pl (entry_price p) reason],
                  position := None\<rparr>
          else st)"

text \<open>\<^verbatim>\<open>manage_open_position\<close> (lines 583-601): the trailing stop, then the two exits.\<close>

definition trail_stop :: "real \<Rightarrow> open_position \<Rightarrow> open_position" where
  "trail_stop current_price p =
     (if current_price \<ge> entry_price p * 1.03
      then (let new_stop_loss = entry_price p * 1.01
            in if new_stop_loss > stop_loss p then p\<lparr>stop_loss := new_stop_loss\<rparr> else p)
      else p)"

definition manage_open_position :: "real \<Rightarrow> string \<Rightarrow> bot \<Rightarrow> bot" where
  "manage_open_position current_price symb st =
     (case position st of
        None \<Rightarrow> st
      | Some p \<Rightarrow>
          if type_p p = ''BUY'' then
            let p1 = trail_stop current_price p;
                st1 = st\<lparr>position := Some p1\<rparr>
            in if current_price \<le> stop_loss p1
               then force_close_position current_price ''Stop Loss'' symb st1
               else if current_price \<ge> take_profit p1
               then force_close_position current_price ''Take Profit'' symb st1
               else st1
          else st)"

text \<open>
  \<^verbatim>\<open>execute_trade\<close> (lines 501-581). In the SELL branch the percentage for the log
  line divides by \<^verbatim>\<open>entry_price * size\<close>: when that is zero the division raises
  after the balance, the counters and the trade list are written and before
  \<^verbatim>\<open>self.position = None\<close>, and the handler keeps the state reached.
\<close>

definition execute_trade :: "market \<Rightarrow> string \<Rightarrow> int \<Rightarrow> real \<Rightarrow> string \<Rightarrow> bot \<Rightarrow> bot" where
  "execute_trade mkt signal strength current_price symb st =
     (if signal = ''BUY'' \<and> position st = None then
        let stop_loss_pct = 0.015;
            take_profit_pct = (if strength \<ge> 10 then 0.08
                               else if strength \<ge> 8 then 0.06 else 0.06);
            stop_loss_price = current_price * (1 - stop_loss_pct);
            take_profit_price = current_price * (1 + take_profit_pct);
            position_size = calculate_position_size mkt st current_price stop_loss_price symb
        in if position_size > 0
           then st\<lparr>position := Some \<lparr>entry_price = current_price,
                                      size_p = position_size,
                                      stop_loss = stop_loss_price,
                                      take_profit = take_profit_price,
                                      type_p = ''BUY'',
                                      signal_strength = strength,
                                      symbol = symb\<rparr>,
                   balance := balance st - position_size * current_price,
                   trades := trades st @
                     [Buy_info symb current_price position_size strength
                        take_profit_pct stop_loss_pct]\<rparr>
           else st
      else if signal = ''SELL'' \<and> (case position st of None \<Rightarrow> False | Some p \<Rightarrow> symbol p = symb) then
        let p = the (position st);
            pl = (current_price - entry_price p) * size_p p;
            st1 = st\<lparr>balance := balance st + size_p p * current_price,
                     total_trades := total_trades st + 1,
                     winning_trades := (if pl > 0 then winning_trades st + 1
                                        else winning_trades st),
                     trades := trades st @
                       [Sell_info symb current_price (size_p p) pl (entry_price p)]\<rparr>
        in if entry_price p * size_p p = 0 then st1
           else st1\<lparr>position := None\<rparr>
      else if (case position st of None \<Rightarrow> False | Some p \<Rightarrow> symbol p = symb)
      then manage_open_position current_price symb st
      else st)"

text \<open>
  What every position that \<^verbatim>\<open>execute_trade\<close> opens satisfies, and
  \<^verbatim>\<open>manage_open_position\<close> keeps: a positive size, a non-zero entry price, type BUY.
\<close>

definition position_ok :: "bot \<Rightarrow> bool" where
  "position_ok st =
     (case position st of
        None \<Rightarrow> True
      | Some p \<Rightarrow> 0 < size_p p \<and> entry_price p \<noteq> 0 \<and> type_p p = ''BUY'')"

section \<open>Double precision\<close>

text \<open>
  Python's \<^verbatim>\<open>float\<close> is the IEEE double: a literal and the result of \<^verbatim>\<open>+\<close>,
  \<^verbatim>\<open>-\<close>, \<^verbatim>\<open>*\<close>, \<^verbatim>\<open>/\<close> is the exact value rounded to the nearest number
  with a 53-bit significand, ties to the even significand. \<open>ulp_of\<close> finds the spacing
  of the doubles around a positive number by doubling or halving it into
  \<open>[2^52, 2^53)\<close>; its fuel covers every normal double. Overflow, subnormal numbers
  and the sign of zero are outside this model.
\<close>

fun ulp_of :: "nat \<Rightarrow> real \<Rightarrow> real" where
  "ulp_of 0 x = 1"
| "ulp_of (Suc n) x =
     (if x < 2 ^ 52 then ulp_of n (x * 2) / 2
      else if 2 ^ 53 \<le> x then ulp_of n (x / 2) * 2
      else 1)"

definition ulp :: "real \<Rightarrow> real" where
  "ulp x = ulp_of 2200 \<bar>x\<bar>"

definition round_half_even :: "real \<Rightarrow> int" where
  "round_half_even q =
     (let f = \<lfloor>q\<rfloor>; d = q - of_int f
      in if d < 1 / 2 then f else if 1 / 2 < d then f + 1
         else if even f then f else f + 1)"

definition dbl :: "real \<Rightarrow> real" where
  "dbl x = (if x = 0 then 0
            else sgn x * (of_int (round_half_even (\<bar>x\<bar> / ulp x)) * ulp x))"

section \<open>Position manager in double precision\<close>

text \<open>
  The same functions as above, line for line, with every decimal literal and every
  arithmetic operation rounded as the interpreter rounds it. The score is the value that
  \<^verbatim>\<open>analyze_coin_potential(symbol)\<close> returns during the call; \<^verbatim>\<open>abs\<close>, \<^verbatim>\<open>min\<close>
  and the comparisons are exact.
\<close>

definition calculate_position_size_dbl :: "real \<Rightarrow> bot \<Rightarrow> real \<Rightarrow> real \<Rightarrow> real" where
  "calculate_position_size_dbl profit_potential st current_price stop_loss_price =
     (let base_risk = dbl (balance st * risk_per_trade st);
          base_risk = (if profit_potential > 70 then dbl (base_risk * dbl 1.5)
                       else if profit_potential > 50 then dbl (base_risk * dbl 1.2)
                       else base_risk);
          price_diff = \<bar>dbl (current_price - stop_loss_price)\<bar>
      in if price_diff = 0 then 0
         else
           let position_size = dbl (base_risk / price_diff);
               max_position_value =
                 dbl (balance st * min (dbl 0.15) (dbl (dbl 0.08 * dbl (profit_potential / 50))))
           in if dbl (position_size * current_price) > max_position_value
              then (if current_price = 0 then 0
                    else dbl (max_position_value / current_price))
              else position_size)"

definition force_close_position_dbl :: "real \<Rightarrow> string \<Rightarrow> string \<Rightarrow> bot \<Rightarrow> bot" where
  "force_close_position_dbl current_price reason symb st =
     (case position st of
        None \<Rightarrow> st
      | Some p \<Rightarrow>
          if type_p p = ''BUY'' then
            let pl = dbl (dbl (current_price - entry_price p) * size_p p)
            in st\<lparr>balance := dbl (balance st + dbl (size_p p * current_price)),
                  total_trades := total_trades st + 1,
                  winning_trades := (if pl > 0 then winning_trades st + 1
                                     else winning_trades st),
                  trades := trades st @
                    [Close_info symb current_price (size_p p) pl (entry_price p) reason],
                  position := None\<rparr>
          else st)"

definition trail_stop_dbl :: "real \<Rightarrow> open_position \<Rightarrow> open_position" where
  "trail_stop_dbl current_price p =
     (if current_price \<ge> dbl (entry_price p * dbl 1.03)
      then (let new_stop_loss = dbl (entry_price p * dbl 1.01)
            in if new_stop_loss > stop_loss p then p\<lparr>stop_loss := new_stop_loss\<rparr> else p)
      else p)"

definition manage_open_position_dbl :: "real \<Rightarrow> string \<Rightarrow> bot \<Rightarrow> bot" where
  "manage_open_position_dbl current_price symb st =
     (case position st of
        None \<Rightarrow> st
      | Some p \<Rightarrow>
          if type_p p = ''BUY'' then
            let p1 = trail_stop_dbl current_price p;
                st1 = st\<lparr>position := Some p1\<rparr>
            in if current_price \<le> stop_loss p1
               then force_close_position_dbl current_price ''Stop Loss'' symb st1
               else if current_price \<ge> take_profit p1
               then force_close_position_dbl current_price ''Take Profit'' symb st1
               else st1
          else st)"

definition execute_trade_dbl :: "real \<Rightarrow> string \<Rightarrow> int \<Rightarrow> real \<Rightarrow> string \<Rightarrow> bot \<Rightarrow> bot" where
  "execute_trade_dbl profit_potential signal strength current_price symb st =
     (if signal = ''BUY'' \<and> position st = None then
        let stop_loss_pct = dbl 0.015;
            take_profit_pct = (if strength \<ge> 10 then dbl 0.08
                               else if strength \<ge> 8 then dbl 0.06 else dbl 0.06);
            stop_loss_price = dbl (current_price * dbl (1 - stop_loss_pct));
            take_profit_price = dbl (current_price * dbl (1 + take_profit_pct));
            position_size =
              calculate_position_size_dbl profit_potential st current_price stop_loss_price
        in if position_size > 0
           then st\<lparr>position := Some \<lparr>entry_price = current_price,
                                      size_p = position_size,
                                      stop_loss = stop_loss_price,
                                      take_profit = take_profit_price,
                                      type_p = ''BUY'',
                                      signal_strength = strength,
                                      symbol = symb\<rparr>,
                   balance := dbl (balance st - dbl (position_size * current_price)),
                   trades := trades st @
                     [Buy_info symb current_price position_size strength
                        take_profit_pct stop_loss_pct]\<rparr>
           else st
      else if signal = ''SELL'' \<and> (case position st of None \<Rightarrow> False | Some p \<Rightarrow> symbol p = symb) then
        let p = the (position st);
            pl = dbl (dbl (current_price - entry_price p) * size_p p);
            st1 = st\<lparr>balance := dbl (balance st + dbl (size_p p * current_price)),
                     total_trades := total_trades st + 1,
                     winning_trades := (if pl > 0 then winning_trades st + 1
                                        else winning_trades st),
                     trades := trades st @
                       [Sell_info symb current_price (size_p p) pl (entry_price p)]\<rparr>
        in if dbl (entry_price p * size_p p) = 0 then st1
           else st1\<lparr>position := None\<rparr>
      else if (case position st of None \<Rightarrow> False | Some p \<Rightarrow> symbol p = symb)
      then manage_open_position_dbl current_price symb st
      else st)"

text \<open>\<^verbatim>\<open>position_size * current_price\<close> of line 532, the amount a BUY debits.\<close>

definition notional_dbl :: "real \<Rightarrow> bot \<Rightarrow> real \<Rightarrow> real" where
  "notional_dbl profit_potential st current_price =
     dbl (calculate_position_size_dbl profit_potential st current_price
            (dbl (current_price * dbl (1 - dbl 0.015))) * current_price)"

section \<open>Spec-side quantities and predicates\<close>

text \<open>
  The sizing rule as the specification words it: the risk budget with its multiplier,
  and the ceiling on the notional value of a position.
\<close>

definition base_risk_spec :: "real \<Rightarrow> real \<Rightarrow> real \<Rightarrow> real" where
  "base_risk_spec bal risk score =
     bal * risk * (if score > 70 then 1.5 else if score > 50 then 1.2 else 1)"

definition notional_cap :: "real \<Rightarrow> real \<Rightarrow> real" where
  "notional_cap bal score = bal * min 0.15 (0.08 * score / 50)"

text \<open>The same two quantities with the rounding of each operation.\<close>

definition base_risk_spec_dbl :: "real \<Rightarrow> real \<Rightarrow> real \<Rightarrow> real" where
  "base_risk_spec_dbl bal risk score =
     (if score > 70 then dbl (dbl (bal * risk) * dbl 1.5)
      else if score > 50 then dbl (dbl (bal * risk) * dbl 1.2)
      else dbl (bal * risk))"

definition notional_cap_dbl :: "real \<Rightarrow> real \<Rightarrow> real" where
  "notional_cap_dbl bal score = dbl (bal * min (dbl 0.15) (dbl (dbl 0.08 * dbl (score / 50))))"

text \<open>
  The volatility term as the comment of the specification's formula reads: 1000 times
  the mean over the rows of each row's range divided by that row's close.
\<close>

definition row_ratio_volatility_term :: "row list \<Rightarrow> pyfloat" where
  "row_ratio_volatility_term df =
     fmul (fillna (nanmean (map (\<lambda>r. fdiv (Fin (high r - low r)) (Fin (close r))) df))
             (Fin 0.02)) 1000"

text \<open>
  Two states compared: the trade counters are the same, or one position was closed
  (the slot is emptied, \<open>total_trades\<close> grows by one, \<open>winning_trades\<close> by at most one).
\<close>

definition counters_kept :: "bot \<Rightarrow> bot \<Rightarrow> bool" where
  "counters_kept st st' =
     (total_trades st' = total_trades st \<and> winning_trades st' = winning_trades st)"

definition closed_one :: "bot \<Rightarrow> bot \<Rightarrow> bool" where
  "closed_one st st' =
     (position st \<noteq> None \<and> position st' = None \<and>
      total_trades st' = total_trades st + 1 \<and>
      (winning_trades st' = winning_trades st \<or> winning_trades st' = winning_trades st + 1))"

section \<open>Concrete inputs\<close>

text \<open>
  The latest row of the specification's BUY scenario; the columns the scenario does
  not name are set to neutral values.
\<close>

definition scenario_row :: row where
  "scenario_row =
     \<lparr>high = 99, low = 99, close = 99, volume = 1,
      MA_10 = Fin 110, MA_20 = Fin 105, MA_50 = Fin 100,
      RSI_7 = Fin 50, RSI_14 = Fin 50,
      MACD = Fin 1, MACD_Signal = Fin 0.5,
      Volume_Ratio = Fin 1.3,
      BB_Upper = Fin 100, BB_Middle = Fin 99,
      Stoch_K = Fin 60, Stoch_D = Fin 55,
      Momentum = Fin 2, Price_Change = Fin (- 0.01)\<rparr>"

text \<open>The bot as \<^verbatim>\<open>__main__\<close> constructs it.\<close>

definition flat_bot :: bot where
  "flat_bot =
     \<lparr>initial_balance = 1000, balance = 1000, risk_per_trade = 0.025, max_drawdown = 0.12,
      position = None, trades = [], total_trades = 0, winning_trades = 0\<rparr>"

text \<open>A raw bar, as \<^verbatim>\<open>get_ohlcv_data\<close> returns it: no indicator column yet.\<close>

definition bar_of :: "real \<Rightarrow> real \<Rightarrow> real \<Rightarrow> real \<Rightarrow> row" where
  "bar_of h l c v =
     \<lparr>high = h, low = l, close = c, volume = v,
      MA_10 = NaN, MA_20 = NaN, MA_50 = NaN,
      RSI_7 = NaN, RSI_14 = NaN,
      MACD = NaN, MACD_Signal = NaN,
      Volume_Ratio = NaN,
      BB_Upper = NaN, BB_Middle = NaN,
      Stoch_K = NaN, Stoch_D = NaN,
      Momentum = NaN, Price_Change = NaN\<rparr>"

text \<open>
  A market whose every instrument shows 50 equal bars with an 8 percent range: no
  trend, RSI term 0, opportunity score 80 (the score of the sizing scenario).
\<close>

definition scenario_market :: market where
  "scenario_market symb = Some (replicate 50 (bar_of 108 100 100 1))"

text \<open>
  The bot after it bought in that market at 100 with strength 16: the position of the
  specification's trailing-stop scenario.
\<close>

definition open_bot :: bot where
  "open_bot =
     \<lparr>initial_balance = 1000, balance = 872, risk_per_trade = 0.025, max_drawdown = 0.12,
      position = Some \<lparr>entry_price = 100, size_p = 1.28, stop_loss = 98.5,
                        take_profit = 108, type_p = ''BUY'', signal_strength = 16,
                        symbol = ''BTC/USDT''\<rparr>,
      trades = [Buy_info ''BTC/USDT'' 100 1.28 16 0.08 0.015],
      total_trades = 0, winning_trades = 0\<rparr>"

text \<open>Fifty bars on two price levels, each with a range of 1.\<close>

definition two_level_frame :: "row list" where
  "two_level_frame = replicate 25 (bar_of 101 100 100 1) @ replicate 25 (bar_of 201 200 200 1)"

text \<open>
  The bot of \<^verbatim>\<open>__main__\<close> with its literals as doubles, the state after it bought at
  100 on a score of 80, and the state after the price fell to 98.2 and the stop loss
  closed that position.
\<close>

definition main_bot :: bot where
  "main_bot =
     \<lparr>initial_balance = 1000, balance = 1000, risk_per_trade = dbl 0.025,
      max_drawdown = dbl 0.12,
      position = None, trades = [], total_trades = 0, winning_trades = 0\<rparr>"

definition after_buy_100 :: bot where
  "after_buy_100 = execute_trade_dbl 80 ''BUY'' 16 100 ''BTC/USDT'' main_bot"

definition after_stop_loss :: bot where
  "after_stop_loss = manage_open_position_dbl (dbl 98.2) ''BTC/USDT'' after_buy_100"

section \<open>Signal engine: the decision rule\<close>

lemma py_sum_satisfied: "py_sum cs = satisfied cs"
  by (induction cs) (auto simp: py_sum_def satisfied_def)

lemma fle_Fin: "fle (Fin a) (Fin b) = (a \<le> b)"
  by (auto simp: fle_def fless_def)

lemma safe_value_Fin: "safe_value (Fin c) d = Fin c"
  by (simp add: safe_value_def isna_def)

lemma safe_row_fields:
  "MA_10 (safe_row r) = safe_value (MA_10 r) (Fin 0)"
  "MA_20 (safe_row r) = safe_value (MA_20 r) (Fin 0)"
  "MA_50 (safe_row r) = safe_value (MA_50 r) (Fin 0)"
  "RSI_7 (safe_row r) = safe_value (RSI_7 r) (Fin 50)"
  "RSI_14 (safe_row r) = safe_value (RSI_14 r) (Fin 50)"
  "MACD (safe_row r) = safe_value (MACD r) (Fin 0)"
  "MACD_Signal (safe_row r) = safe_value (MACD_Signal r) (Fin 0)"
  "Volume_Ratio (safe_row r) = safe_value (Volume_Ratio r) (Fin 1)"
  "BB_Upper (safe_row r) = safe_value (BB_Upper r) (Fin (close r * 1.1))"
  "BB_Middle (safe_row r) = safe_value (BB_Middle r) (Fin (close r))"
  "Stoch_K (safe_row r) = safe_value (Stoch_K r) (Fin 50)"
  "Stoch_D (safe_row r) = safe_value (Stoch_D r) (Fin 50)"
  "Momentum (safe_row r) = safe_value (Momentum r) (Fin 0)"
  "Price_Change (safe_row r) = safe_value (Price_Change r) (Fin 0)"
  "close (safe_row r) = close r"
  by (simp_all add: safe_row_def)

lemma bonus_shape:
  "(if hv then py_sum cs * 2 + x + y else py_sum cs * 2)
     = 2 * satisfied cs + (if hv then x + y else 0)"
  by (simp add: py_sum_satisfied)

text \<open>
  The two sides are the same term once the source's local names are unfolded, so the
  rule is compared by rewriting only, without splitting on the sixteen conditions.
\<close>

lemma strategy_decision:
  assumes "50 \<le> length rows"
  shows "aggressive_profit_strategy st (Some rows) symb
           = decision_spec (position st) symb (safe_row (last rows))"
proof -
  have len: "\<not> length rows < 50" using assms by simp
  show ?thesis
    unfolding aggressive_profit_strategy_def option.case if_not_P[OF len] Let_def
      decision_spec_def buy_score_spec_def sell_score_spec_def high_vol_bonus_def
      stop_loss_hit_def buy_criteria_def sell_criteria_def safe_row_fields
      safe_value_Fin fle_Fin bonus_shape
    unfolding py_sum_satisfied
    by (rule refl)
qed

lemma scenario_score:
  assumes "MA_10 r = Fin 110" "MA_20 r = Fin 105" "MA_50 r = Fin 100" "RSI_7 r = Fin 50"
    "MACD r = Fin 1" "MACD_Signal r = Fin 0.5" "Volume_Ratio r = Fin 1.3" "close r = 99"
    "BB_Upper r = Fin 100" "Stoch_K r = Fin 60" "Stoch_D r = Fin 55" "Momentum r = Fin 2"
    "Price_Change r = Fin (- 0.01)" "\<not> high_vol symb"
  shows "buy_score_spec symb (safe_row r) = 16"
  using assms
  by (simp add: buy_score_spec_def buy_criteria_def high_vol_bonus_def satisfied_def
      safe_row_fields safe_value_def isna_def fless_def fmul_def)

lemma not_high_vol_BTC: "\<not> high_vol ''BTC/USDT''"
  by (simp add: high_vol_def sublist_code)

text \<open>
  Claim C1. On a frame of at least 50 rows the signal engine returns what the decision
  rule of the specification gives on the safely extracted latest row: BUY with the buy
  score (two points for each of the eight BUY criteria that holds, plus the bonus of a
  high-volatility instrument) when that score is at least 8; otherwise SELL with the sell
  score when the sell score is at least 4 or a position is open and the close is at or
  below its stop loss; otherwise HOLD with 0. On the scenario of the specification (all
  eight BUY criteria hold, the instrument is not a high-volatility one) the result is
  BUY with strength 16.
\<close>

theorem signal_decision_precedence:
  assumes "50 \<le> length rows"
  shows "aggressive_profit_strategy st (Some rows) symb
           = decision_spec (position st) symb (safe_row (last rows)) \<and>
         (MA_10 (last rows) = Fin 110 \<and> MA_20 (last rows) = Fin 105 \<and>
          MA_50 (last rows) = Fin 100 \<and> RSI_7 (last rows) = Fin 50 \<and>
          MACD (last rows) = Fin 1 \<and> MACD_Signal (last rows) = Fin 0.5 \<and>
          Volume_Ratio (last rows) = Fin 1.3 \<and> close (last rows) = 99 \<and>
          BB_Upper (last rows) = Fin 100 \<and> Stoch_K (last rows) = Fin 60 \<and>
          Stoch_D (last rows) = Fin 55 \<and> Momentum (last rows) = Fin 2 \<and>
          Price_Change (last rows) = Fin (- 0.01) \<and> \<not> high_vol symb
          \<longrightarrow> aggressive_profit_strategy st (Some rows) symb = (''BUY'', 16))"
proof -
  have dec: "aggressive_profit_strategy st (Some rows) symb
           = decision_spec (position st) symb (safe_row (last rows))"
    using assms by (rule strategy_decision)
  moreover have "decision_spec (position st) symb (safe_row (last rows)) = (''BUY'', 16)"
    if "buy_score_spec symb (safe_row (last rows)) = 16"
    using that by (simp add: decision_spec_def)
  ultimately show ?thesis
    using scenario_score [of "last rows" symb] by simp
qed

theorem signal_decision_precedence_witness:
  "50 \<le> length (replicate 50 scenario_row) \<and>
   aggressive_profit_strategy flat_bot (Some (replicate 50 scenario_row)) ''BTC/USDT''
     = (''BUY'', 16)"
proof -
  have len: "50 \<le> length (replicate 50 scenario_row)" by simp
  have "aggressive_profit_strategy flat_bot (Some (replicate 50 scenario_row)) ''BTC/USDT''
          = (''BUY'', 16)"
    using conjunct2 [OF signal_decision_precedence [OF len, of flat_bot "''BTC/USDT''"]]
      not_high_vol_BTC
    by (simp add: scenario_row_def)
  with len show ?thesis by simp
qed

section \<open>Short frames\<close>

text \<open>
  Claim C2. On a frame of fewer than 50 rows, the empty frame and the absent frame
  included, the signal engine returns HOLD with strength 0 and the potential scorer
  returns 0.
\<close>

theorem short_frame_neutral:
  assumes "df = None \<or> (\<exists>rows. df = Some rows \<and> length rows < 50)"
  shows "aggressive_profit_strategy st df symb = (''HOLD'', 0) \<and> analyze_coin_potential df = 0"
  using assms
  by (auto simp: aggressive_profit_strategy_def analyze_coin_potential_def)

theorem short_frame_neutral_witness:
  "length (replicate 49 scenario_row) < 50 \<and>
   aggressive_profit_strategy flat_bot (Some (replicate 49 scenario_row)) ''BTC/USDT''
     = (''HOLD'', 0) \<and>
   analyze_coin_potential (Some (replicate 49 scenario_row)) = 0 \<and>
   aggressive_profit_strategy flat_bot None ''BTC/USDT'' = (''HOLD'', 0) \<and>
   analyze_coin_potential None = 0"
proof -
  have short: "length (replicate 49 scenario_row) < 50" by simp
  then have h: "Some (replicate 49 scenario_row) = None \<or>
      (\<exists>rows. Some (replicate 49 scenario_row) = Some rows \<and> length rows < 50)"
    by blast
  have n: "(None :: row list option) = None \<or> (\<exists>rows. None = Some rows \<and> length rows < 50)"
    by simp
  from short short_frame_neutral [OF h, of flat_bot "''BTC/USDT''"]
    short_frame_neutral [OF n, of flat_bot "''BTC/USDT''"]
  show ?thesis by blast
qed

section \<open>Position size\<close>

lemma scenario_score_80: "analyze_coin_potential (scenario_market s) = 80"
  unfolding scenario_market_def bar_of_def by code_simp

text \<open>
  The score lies in [0, 100], so the cap is not negative as long as the balance is not.
\<close>

lemma clamp_0_100_range: "0 \<le> clamp_0_100 x \<and> clamp_0_100 x \<le> 100"
  by (cases x) (simp_all add: clamp_0_100_def)

lemma analyze_coin_potential_range:
  "0 \<le> analyze_coin_potential fetched \<and> analyze_coin_potential fetched \<le> 100"
  by (cases fetched) (simp_all add: analyze_coin_potential_def Let_def clamp_0_100_range)

lemma notional_cap_nonneg:
  "0 \<le> bal \<Longrightarrow> 0 \<le> notional_cap bal (analyze_coin_potential fetched)"
  using analyze_coin_potential_range [of fetched]
  by (simp add: notional_cap_def)

text \<open>
  In exact arithmetic the size follows the rule of the specification and its notional
  value never exceeds the cap; the sections after this one redo the computation in
  doubles.
\<close>

lemma size_formula:
  assumes "stop_loss_price \<noteq> current_price"
      and "current_price \<noteq> 0 \<or> 0 \<le> notional_cap (balance st) (analyze_coin_potential (mkt symb))"
  shows "calculate_position_size mkt st current_price stop_loss_price symb
              = (let raw = base_risk_spec (balance st) (risk_per_trade st)
                             (analyze_coin_potential (mkt symb))
                           / \<bar>current_price - stop_loss_price\<bar>;
                     cap = notional_cap (balance st) (analyze_coin_potential (mkt symb))
                 in if raw * current_price > cap then cap / current_price else raw)"
  using assms
  by (auto simp: calculate_position_size_def Let_def base_risk_spec_def notional_cap_def)

lemma size_bound:
  assumes "stop_loss_price \<noteq> current_price"
      and "current_price \<noteq> 0 \<or> 0 \<le> notional_cap (balance st) (analyze_coin_potential (mkt symb))"
  shows "calculate_position_size mkt st current_price stop_loss_price symb * current_price
           \<le> notional_cap (balance st) (analyze_coin_potential (mkt symb))"
  using assms
  by (auto simp: calculate_position_size_def Let_def base_risk_spec_def notional_cap_def not_less)

lemma size_zero_distance:
  "calculate_position_size mkt st current_price current_price symb = 0"
  by (simp add: calculate_position_size_def Let_def)

lemma size_scenario:
  assumes "balance st = 1000" "risk_per_trade st = 0.025" "analyze_coin_potential (mkt symb) = 80"
  shows "calculate_position_size mkt st 100 98.5 symb = 1.28"
  using assms by (simp add: calculate_position_size_def Let_def)

section \<open>Rounding to double\<close>

text \<open>
  A number that \<open>k\<close> doublings bring into \<open>[2^52, 2^53)\<close> has spacing \<open>2^-k\<close>;
  this evaluates \<open>dbl\<close> on the numbers of the scenarios. The rounding error is at
  most half a spacing.
\<close>

lemma ulp_of_scaled:
  "2 ^ 52 \<le> x * 2 ^ k \<Longrightarrow> x * 2 ^ k < 2 ^ 53 \<Longrightarrow> k \<le> n \<Longrightarrow> ulp_of n x = 1 / 2 ^ k"
proof (induction n x arbitrary: k rule: ulp_of.induct)
  case (1 x)
  then show ?case by simp
next
  case (2 n x)
  show ?case
  proof (cases k)
    case 0
    with 2 show ?thesis by simp
  next
    case (Suc j)
    with 2 have lt: "x < 2 ^ 52"
    proof -
      from 2(4) Suc have "x * 2 * 2 ^ j < 2 ^ 53" by (simp add: mult.assoc)
      moreover have "(1::real) \<le> 2 ^ j" by simp
      moreover have "0 < x"
      proof -
        have "(0::real) < 2 ^ 52" by simp
        also have "\<dots> \<le> x * 2 ^ k" by (rule 2(3))
        finally show ?thesis by (simp add: zero_less_mult_iff)
      qed
      ultimately have "x * 2 * 1 \<le> x * 2 * 2 ^ j" by (intro mult_left_mono) auto
      with \<open>x * 2 * 2 ^ j < 2 ^ 53\<close> show ?thesis by simp
    qed
    have "ulp_of n (x * 2) = 1 / 2 ^ j"
      using 2(1) [OF lt, of j] 2(3,4,5) Suc by (simp add: mult.assoc)
    with lt Suc show ?thesis by simp
  qed
qed

lemma dbl_small:
  assumes "2 ^ 52 \<le> \<bar>x\<bar> * 2 ^ k" and "\<bar>x\<bar> * 2 ^ k < 2 ^ 53" and "k \<le> 2200"
  shows "dbl x = sgn x * (of_int (round_half_even (\<bar>x\<bar> * 2 ^ k)) / 2 ^ k)"
proof -
  have "x \<noteq> 0" using assms(1) by auto
  moreover have "ulp x = 1 / 2 ^ k"
    unfolding ulp_def using assms by (rule ulp_of_scaled)
  ultimately show ?thesis by (simp add: dbl_def)
qed

lemmas dbl_eval =
  dbl_small [where k = 40] dbl_small [where k = 41] dbl_small [where k = 42]
  dbl_small [where k = 43] dbl_small [where k = 44] dbl_small [where k = 45]
  dbl_small [where k = 46] dbl_small [where k = 47] dbl_small [where k = 48]
  dbl_small [where k = 49] dbl_small [where k = 50] dbl_small [where k = 51]
  dbl_small [where k = 52] dbl_small [where k = 53] dbl_small [where k = 54]
  dbl_small [where k = 55] dbl_small [where k = 56] dbl_small [where k = 57]
  dbl_small [where k = 58] dbl_small [where k = 59] dbl_small [where k = 60]


lemma ulp_of_pos: "0 < ulp_of n x"
  by (induction n x rule: ulp_of.induct) simp_all

lemma ulp_pos: "0 < ulp x"
  by (simp add: ulp_def ulp_of_pos)

lemma round_half_even_error: "\<bar>real_of_int (round_half_even q) - q\<bar> \<le> 1 / 2"
  unfolding round_half_even_def Let_def
  by (auto simp: abs_if) linarith+

lemma dbl_error: "\<bar>dbl x - x\<bar> \<le> ulp x / 2"
proof (cases "x = 0")
  case True
  then show ?thesis using ulp_pos [of x] by (simp add: dbl_def)
next
  case False
  define u where "u = ulp x"
  define q where "q = \<bar>x\<bar> / u"
  have u: "0 < u" by (simp add: u_def ulp_pos)
  have x: "x = sgn x * (q * u)" using u by (simp add: q_def sgn_mult_abs)
  have "dbl x - x = sgn x * ((real_of_int (round_half_even q) - q) * u)"
    using False u by (subst (2) x) (simp add: dbl_def u_def q_def algebra_simps)
  then have "\<bar>dbl x - x\<bar> = \<bar>real_of_int (round_half_even q) - q\<bar> * u"
    using False u by (simp add: abs_mult abs_sgn_eq)
  also have "\<dots> \<le> (1 / 2) * u"
    using round_half_even_error [of q] u by (intro mult_right_mono) auto
  finally show ?thesis by (simp add: u_def)
qed

lemma dbl_0: "dbl 0 = 0"
  by (simp add: dbl_def)

section \<open>The first trade of the bot, in doubles\<close>

lemma main_bot_fields:
  "balance main_bot = 1000" "risk_per_trade main_bot = dbl 0.025"
  "position main_bot = None" "trades main_bot = []"
  "total_trades main_bot = 0" "winning_trades main_bot = 0"
  by (simp_all add: main_bot_def)

lemma size_at_100:
  "calculate_position_size_dbl 80 main_bot 100 (197 / 2) = 5764607523034235 / 4503599627370496"
  unfolding calculate_position_size_dbl_def Let_def main_bot_fields
  by (simp add: dbl_eval round_half_even_def)

lemma after_buy_100_eq:
  "after_buy_100 =
     main_bot\<lparr>position := Some \<lparr>entry_price = 100,
                    size_p = 5764607523034235 / 4503599627370496,
                    stop_loss = 197 / 2, take_profit = 108, type_p = ''BUY'',
                    signal_strength = 16, symbol = ''BTC/USDT''\<rparr>,
               balance := 872,
               trades := [Buy_info ''BTC/USDT'' 100 (5764607523034235 / 4503599627370496) 16
                            (dbl 0.08) (dbl 0.015)]\<rparr>"
  unfolding after_buy_100_def execute_trade_dbl_def Let_def
  by (simp add: main_bot_fields size_at_100 dbl_eval round_half_even_def)

lemma after_buy_100_fields:
  "position after_buy_100 = Some \<lparr>entry_price = 100,
                    size_p = 5764607523034235 / 4503599627370496,
                    stop_loss = 197 / 2, take_profit = 108, type_p = ''BUY'',
                    signal_strength = 16, symbol = ''BTC/USDT''\<rparr>"
  "balance after_buy_100 = 872"
  "risk_per_trade after_buy_100 = dbl 0.025"
  "total_trades after_buy_100 = 0" "winning_trades after_buy_100 = 0"
  by (simp_all add: after_buy_100_eq main_bot_fields)

lemma after_stop_loss_fields:
  "position after_stop_loss = None"
  "balance after_stop_loss = 8775826823884833 / 8796093022208"
  "risk_per_trade after_stop_loss = dbl 0.025"
  "total_trades after_stop_loss = 1" "winning_trades after_stop_loss = 0"
  unfolding after_stop_loss_def manage_open_position_dbl_def trail_stop_dbl_def
    force_close_position_dbl_def Let_def after_buy_100_fields
  by (simp_all add: after_buy_100_fields dbl_eval round_half_even_def)

section \<open>Position size in doubles\<close>

lemma size_dbl_zero_distance:
  "dbl (current_price - stop_loss_price) = 0 \<Longrightarrow>
     calculate_position_size_dbl score st current_price stop_loss_price = 0"
  by (simp add: calculate_position_size_dbl_def Let_def)

lemma size_dbl_formula:
  assumes "dbl (current_price - stop_loss_price) \<noteq> 0"
      and "current_price \<noteq> 0 \<or> 0 \<le> notional_cap_dbl (balance st) score"
  shows "calculate_position_size_dbl score st current_price stop_loss_price
           = (let raw = dbl (base_risk_spec_dbl (balance st) (risk_per_trade st) score
                             / \<bar>dbl (current_price - stop_loss_price)\<bar>);
                  cap = notional_cap_dbl (balance st) score
              in if dbl (raw * current_price) > cap then dbl (cap / current_price) else raw)"
  using assms
  by (auto simp: calculate_position_size_dbl_def Let_def base_risk_spec_dbl_def
      notional_cap_dbl_def dbl_0)

lemma size_dbl_bound:
  assumes "dbl (current_price - stop_loss_price) \<noteq> 0"
      and "current_price \<noteq> 0 \<or> 0 \<le> notional_cap_dbl (balance st) score"
  shows "dbl (calculate_position_size_dbl score st current_price stop_loss_price * current_price)
           \<le> notional_cap_dbl (balance st) score \<or>
         \<bar>calculate_position_size_dbl score st current_price stop_loss_price * current_price
            - notional_cap_dbl (balance st) score\<bar>
           \<le> \<bar>current_price\<bar> * ulp (notional_cap_dbl (balance st) score / current_price) / 2"
proof -
  define raw where "raw = dbl (base_risk_spec_dbl (balance st) (risk_per_trade st) score
                             / \<bar>dbl (current_price - stop_loss_price)\<bar>)"
  define cap where "cap = notional_cap_dbl (balance st) score"
  have sz: "calculate_position_size_dbl score st current_price stop_loss_price
              = (if dbl (raw * current_price) > cap then dbl (cap / current_price) else raw)"
    using size_dbl_formula [of current_price stop_loss_price st score] assms
    by (simp add: raw_def cap_def Let_def)
  show ?thesis
  proof (cases "dbl (raw * current_price) > cap")
    case False
    with sz show ?thesis by (simp add: cap_def)
  next
    case True
    have nz: "current_price \<noteq> 0"
    proof
      assume "current_price = 0"
      with True assms(2) show False by (simp add: dbl_0 cap_def)
    qed
    have "\<bar>dbl (cap / current_price) * current_price - cap\<bar>
            = \<bar>dbl (cap / current_price) - cap / current_price\<bar> * \<bar>current_price\<bar>"
      using nz by (simp add: abs_mult [symmetric] algebra_simps)
    also have "\<dots> \<le> (ulp (cap / current_price) / 2) * \<bar>current_price\<bar>"
      by (intro mult_right_mono dbl_error) simp
    finally show ?thesis using True sz by (simp add: cap_def mult.commute)
  qed
qed

lemma size_dbl_scenario:
  assumes "balance st = 1000" "risk_per_trade st = dbl 0.025"
  shows "calculate_position_size_dbl 80 st 100 98.5 = dbl 1.28"
  unfolding calculate_position_size_dbl_def Let_def assms
  by (simp add: dbl_eval round_half_even_def)

text \<open>
  Claim C5, amended. The size is 0 when the stop distance is zero. Otherwise it is the
  risk budget (balance times risk per trade, times 1.5 for a score above 70, else times
  1.2 for a score above 50) divided by the stop distance, replaced by cap / entry price
  when its notional value exceeds the cap balance * min(0.15, 0.08 * score / 50), each
  operation rounded to a double. A size that is kept has a notional value, as the code
  computes it, of at most the cap; a size that is reduced is the double nearest to
  cap / entry price, so its notional value is within |entry price| times half a spacing
  of the cap, and can lie above it. For balance 1000, risk 0.025, entry 100, stop 98.5
  and score 80 the size is the double 1.28. The rule is stated where the cap division
  is defined: the price is not zero, or the cap is not negative.
\<close>

theorem position_size_rule_doubles:
  assumes "current_price \<noteq> 0 \<or> 0 \<le> notional_cap_dbl (balance st) score"
  shows "(dbl (current_price - stop_loss_price) = 0 \<longrightarrow>
            calculate_position_size_dbl score st current_price stop_loss_price = 0) \<and>
         (dbl (current_price - stop_loss_price) \<noteq> 0 \<longrightarrow>
            calculate_position_size_dbl score st current_price stop_loss_price
              = (let raw = dbl (base_risk_spec_dbl (balance st) (risk_per_trade st) score
                                / \<bar>dbl (current_price - stop_loss_price)\<bar>);
                     cap = notional_cap_dbl (balance st) score
                 in if dbl (raw * current_price) > cap then dbl (cap / current_price) else raw) \<and>
            (dbl (calculate_position_size_dbl score st current_price stop_loss_price
                    * current_price)
               \<le> notional_cap_dbl (balance st) score \<or>
             \<bar>calculate_position_size_dbl score st current_price stop_loss_price * current_price
                - notional_cap_dbl (balance st) score\<bar>
               \<le> \<bar>current_price\<bar> * ulp (notional_cap_dbl (balance st) score / current_price) / 2)) \<and>
         (balance st = 1000 \<and> risk_per_trade st = dbl 0.025 \<and> score = 80 \<longrightarrow>
            calculate_position_size_dbl score st 100 98.5 = dbl 1.28)"
  using assms
    size_dbl_zero_distance [of current_price stop_loss_price score st]
    size_dbl_formula [of current_price stop_loss_price st score]
    size_dbl_bound [of current_price stop_loss_price st score]
    size_dbl_scenario [of st]
  by blast

theorem position_size_rule_doubles_witness:
  "calculate_position_size_dbl 80 main_bot 100 98.5 = dbl 1.28 \<and>
   dbl 1.28 = 5764607523034235 / 4503599627370496"
proof -
  have nz: "(100::real) \<noteq> 0 \<or> 0 \<le> notional_cap_dbl (balance main_bot) 80" by simp
  have "calculate_position_size_dbl 80 main_bot 100 98.5 = dbl 1.28"
    using conjunct2 [OF conjunct2 [OF position_size_rule_doubles [OF nz, of "98.5"]]]
    by (simp add: main_bot_fields)
  moreover have "dbl 1.28 = 5764607523034235 / 4503599627370496"
    by (simp add: dbl_eval round_half_even_def)
  ultimately show ?thesis by simp
qed

text \<open>
  After its first trade the bot holds 997.696. At price 0.85 and score 80 the reduced
  size times the price is above the cap: as an exact product, as the rounded product,
  and against the cap of exact arithmetic.
\<close>

lemma after_stop_loss_cap:
  "notional_cap_dbl (balance after_stop_loss) 80 = 8986446667658069 / 70368744177664"
  unfolding notional_cap_dbl_def after_stop_loss_fields
  by (simp add: dbl_eval round_half_even_def)

lemma size_at_085:
  "calculate_position_size_dbl 80 after_stop_loss (dbl 0.85) (dbl (dbl 0.85 * dbl (1 - dbl 0.015)))
     = 2643072549311197 / 17592186044416"
  unfolding calculate_position_size_dbl_def Let_def after_stop_loss_fields
  by (simp add: dbl_eval round_half_even_def)

theorem size_bound_fails_in_doubles:
  "position after_stop_loss = None \<and>
   balance after_stop_loss = 8775826823884833 / 8796093022208 \<and>
   calculate_position_size_dbl 80 after_stop_loss (dbl 0.85) (dbl (dbl 0.85 * dbl (1 - dbl 0.015)))
     * dbl 0.85
     > notional_cap_dbl (balance after_stop_loss) 80 \<and>
   dbl (calculate_position_size_dbl 80 after_stop_loss (dbl 0.85)
          (dbl (dbl 0.85 * dbl (1 - dbl 0.015))) * dbl 0.85)
     > notional_cap_dbl (balance after_stop_loss) 80 \<and>
   calculate_position_size_dbl 80 after_stop_loss (dbl 0.85) (dbl (dbl 0.85 * dbl (1 - dbl 0.015)))
     * dbl 0.85
     > notional_cap (balance after_stop_loss) 80"
  unfolding size_at_085 after_stop_loss_cap
  by (simp add: after_stop_loss_fields notional_cap_def dbl_eval round_half_even_def)

section \<open>Position manager: the scenario state and the invariant\<close>

lemma open_bot_reached:
  "execute_trade scenario_market ''BUY'' 16 100 ''BTC/USDT'' flat_bot = open_bot"
proof -
  have "calculate_position_size scenario_market flat_bot 100 (100 * (1 - 0.015)) ''BTC/USDT'' = 1.28"
    using size_scenario [of flat_bot scenario_market "''BTC/USDT''"] scenario_score_80
    by (simp add: flat_bot_def)
  then show ?thesis
    by (simp add: execute_trade_def Let_def flat_bot_def open_bot_def)
qed

lemma position_ok_open_bot: "position_ok open_bot"
  by (simp add: position_ok_def open_bot_def)

lemma trail_stop_cases:
  "trail_stop current_price p = p \<or>
   trail_stop current_price p = p\<lparr>stop_loss := entry_price p * 1.01\<rparr>"
  by (simp add: trail_stop_def Let_def)

lemma trail_stop_value:
  "stop_loss (trail_stop current_price p)
     = (if current_price \<ge> entry_price p * 1.03
        then max (stop_loss p) (entry_price p * 1.01) else stop_loss p)"
  by (simp add: trail_stop_def Let_def max_def)

lemma trail_stop_fields:
  "entry_price (trail_stop c p) = entry_price p"
  "size_p (trail_stop c p) = size_p p"
  "take_profit (trail_stop c p) = take_profit p"
  "type_p (trail_stop c p) = type_p p"
  "symbol (trail_stop c p) = symbol p"
  by (simp_all add: trail_stop_def Let_def)

lemma manage_position:
  assumes "position st = Some p"
  shows "position (manage_open_position current_price symb st) = None \<or>
         position (manage_open_position current_price symb st) = Some p \<or>
         (type_p p = ''BUY'' \<and>
          position (manage_open_position current_price symb st)
            = Some (trail_stop current_price p))"
  using assms
  by (simp add: manage_open_position_def force_close_position_def Let_def trail_stop_fields)

lemma force_close_position_None:
  "type_p p = ''BUY'' \<Longrightarrow> position st = Some p \<Longrightarrow>
     position (force_close_position c r symb st) = None"
  by (simp add: force_close_position_def Let_def)

lemma manage_keeps:
  assumes "position st = Some p"
      and "position (manage_open_position current_price symb st) = Some p'"
  shows "p' = (if type_p p = ''BUY'' then trail_stop current_price p else p)"
proof (cases "type_p p = ''BUY''")
  case True
  then have "type_p (trail_stop current_price p) = ''BUY''"
    by (simp add: trail_stop_fields)
  with True assms show ?thesis
    by (auto simp: manage_open_position_def Let_def force_close_position_None
        split: if_splits)
next
  case False
  with assms show ?thesis by (simp add: manage_open_position_def)
qed

lemma manage_no_trigger:
  assumes "position st = Some p"
      and "current_price < entry_price p * 1.03"
      and "stop_loss p < current_price" and "current_price < take_profit p"
  shows "manage_open_position current_price symb st = st"
  using assms by (simp add: manage_open_position_def trail_stop_def Let_def)

lemma execute_buy_open:
  assumes "position st = Some p"
  shows "execute_trade mkt ''BUY'' strength current_price symb st
           = (if symbol p = symb then manage_open_position current_price symb st else st)"
  using assms by (simp add: execute_trade_def)

lemma execute_buy_flat:
  assumes "position st = None"
      and "0 < calculate_position_size mkt st p (p * (1 - 0.015)) symb"
  shows "execute_trade mkt ''BUY'' strength p symb st
           = st\<lparr>position := Some \<lparr>entry_price = p,
                    size_p = calculate_position_size mkt st p (p * (1 - 0.015)) symb,
                    stop_loss = p * (1 - 0.015),
                    take_profit = p * (1 + (if strength \<ge> 10 then 0.08 else 0.06)),
                    type_p = ''BUY'', signal_strength = strength, symbol = symb\<rparr>,
                 balance := balance st
                    - calculate_position_size mkt st p (p * (1 - 0.015)) symb * p,
                 trades := trades st @
                    [Buy_info symb p (calculate_position_size mkt st p (p * (1 - 0.015)) symb)
                       strength (if strength \<ge> 10 then 0.08 else 0.06) 0.015]\<rparr>"
  using assms by (simp add: execute_trade_def Let_def)

lemma force_close_counters:
  "counters_kept st (force_close_position c r symb st) \<or>
   closed_one st (force_close_position c r symb st)"
  by (cases "position st")
     (simp_all add: force_close_position_def Let_def counters_kept_def closed_one_def)

lemma manage_counters:
  "counters_kept st (manage_open_position c symb st) \<or>
   closed_one st (manage_open_position c symb st)"
proof (cases "position st")
  case None
  then show ?thesis by (simp add: manage_open_position_def counters_kept_def)
next
  case (Some p)
  then show ?thesis
    by (simp add: manage_open_position_def force_close_position_def Let_def
        counters_kept_def closed_one_def trail_stop_fields)
qed

lemma execute_counters:
  assumes "position_ok st"
  shows "counters_kept st (execute_trade mkt signal strength c symb st) \<or>
         closed_one st (execute_trade mkt signal strength c symb st)"
proof (cases "position st")
  case None
  then show ?thesis
    by (simp add: execute_trade_def Let_def counters_kept_def)
next
  case (Some p)
  with assms have nz: "entry_price p * size_p p \<noteq> 0"
    by (simp add: position_ok_def)
  show ?thesis
  proof (cases "signal = ''SELL'' \<and> symbol p = symb")
    case True
    with Some nz show ?thesis
      by (simp add: execute_trade_def Let_def closed_one_def)
  next
    case False
    with Some have "execute_trade mkt signal strength c symb st
        = (if symbol p = symb then manage_open_position c symb st else st)"
      by (auto simp: execute_trade_def)
    then show ?thesis
      using manage_counters [of st c symb] by (simp add: counters_kept_def)
  qed
qed

lemma initial_balance_kept:
  "initial_balance (force_close_position c r symb st) = initial_balance st"
  "initial_balance (manage_open_position c symb st) = initial_balance st"
  "initial_balance (execute_trade mkt signal strength c symb st) = initial_balance st"
proof -
  show fc: "initial_balance (force_close_position c r symb st) = initial_balance st" for c r symb st
    by (simp add: force_close_position_def Let_def split: option.split)
  show mg: "initial_balance (manage_open_position c symb st) = initial_balance st" for c symb st
    by (simp add: manage_open_position_def Let_def fc split: option.split)
  show "initial_balance (execute_trade mkt signal strength c symb st) = initial_balance st"
    by (simp add: execute_trade_def Let_def mg split: option.split)
qed

text \<open>The invariant \<open>position_ok\<close> holds at the start and is kept by every operation.\<close>

lemma position_ok_flat_bot: "position_ok flat_bot"
  by (simp add: position_ok_def flat_bot_def)

lemma position_ok_force_close: "position_ok st \<Longrightarrow> position_ok (force_close_position c r symb st)"
  by (cases "position st") (auto simp: force_close_position_def position_ok_def Let_def)

lemma position_ok_manage: "position_ok st \<Longrightarrow> position_ok (manage_open_position c symb st)"
  by (cases "position st")
     (auto simp: manage_open_position_def force_close_position_def position_ok_def Let_def
        trail_stop_fields)

lemma position_ok_execute:
  assumes "position_ok st"
  shows "position_ok (execute_trade mkt signal strength c symb st)"
proof (cases "position st")
  case None
  have "c \<noteq> 0" if "0 < calculate_position_size mkt st c (c * (1 - 0.015)) symb"
    using that by (auto simp: calculate_position_size_def Let_def)
  with None show ?thesis
    by (auto simp: execute_trade_def Let_def position_ok_def)
next
  case (Some p)
  then have "execute_trade mkt signal strength c symb st = manage_open_position c symb st \<or>
             execute_trade mkt signal strength c symb st = st \<or>
             position (execute_trade mkt signal strength c symb st) = None"
    using assms by (auto simp: execute_trade_def Let_def position_ok_def)
  with assms position_ok_manage [OF assms, of c symb] show ?thesis
    by (auto simp: position_ok_def)
qed

section \<open>Position manager: the claims\<close>

text \<open>
  Claim C10. A SELL signal for an instrument other than the one of the held position
  leaves the whole state as it is.
\<close>

theorem sell_other_instrument:
  assumes "position st = Some p" and "symbol p \<noteq> symb"
  shows "execute_trade mkt ''SELL'' strength current_price symb st = st"
  using assms by (simp add: execute_trade_def)

theorem sell_other_instrument_witness:
  "position open_bot \<noteq> None \<and>
   execute_trade scenario_market ''SELL'' 5 98 ''ETH/USDT'' open_bot = open_bot"
proof -
  have p: "position open_bot = Some \<lparr>entry_price = 100, size_p = 1.28, stop_loss = 98.5,
                        take_profit = 108, type_p = ''BUY'', signal_strength = 16,
                        symbol = ''BTC/USDT''\<rparr>"
    by (simp add: open_bot_def)
  show ?thesis
    using sell_other_instrument [OF p, of "''ETH/USDT''" scenario_market 5 98] p by simp
qed

text \<open>
  Claim C4. A call of \<open>manage_open_position\<close> that leaves the position open never
  lowers its stop loss: the new stop loss is the maximum of the old one and 1.01 times
  the entry price when the price has reached 1.03 times the entry price, and the old one
  otherwise.
\<close>

theorem stop_loss_ratchet:
  assumes "position st = Some p"
      and "position (manage_open_position current_price symb st) = Some p'"
  shows "stop_loss p \<le> stop_loss p' \<and>
         (type_p p = ''BUY'' \<longrightarrow>
            stop_loss p' = (if current_price \<ge> entry_price p * 1.03
                            then max (stop_loss p) (entry_price p * 1.01)
                            else stop_loss p))"
  unfolding manage_keeps [OF assms]
  by (simp add: trail_stop_value)

theorem stop_loss_ratchet_witness:
  "position (manage_open_position 103 ''BTC/USDT'' open_bot)
     = Some \<lparr>entry_price = 100, size_p = 1.28, stop_loss = 101,
             take_profit = 108, type_p = ''BUY'', signal_strength = 16,
             symbol = ''BTC/USDT''\<rparr> \<and>
   (98.5::real) \<le> 101 \<and> (101::real) = max 98.5 (100 * 1.01)"
proof -
  have p: "position open_bot = Some \<lparr>entry_price = 100, size_p = 1.28, stop_loss = 98.5,
                        take_profit = 108, type_p = ''BUY'', signal_strength = 16,
                        symbol = ''BTC/USDT''\<rparr>"
    by (simp add: open_bot_def)
  have q: "position (manage_open_position 103 ''BTC/USDT'' open_bot)
     = Some \<lparr>entry_price = 100, size_p = 1.28, stop_loss = 101,
             take_profit = 108, type_p = ''BUY'', signal_strength = 16,
             symbol = ''BTC/USDT''\<rparr>"
    by (simp add: manage_open_position_def trail_stop_def Let_def open_bot_def)
  show ?thesis
    using stop_loss_ratchet [OF p q] q by simp
qed

text \<open>
  Claim C3, amended. A BUY signal while a position is open never opens or replaces a
  position: the slot afterwards is empty, or holds the same position, at most with
  its stop loss raised to 1.01 times the entry price. The call changes nothing when the
  signalled instrument is not the held one, or when the price is below 1.03 times the
  entry price and strictly between stop loss and take profit. For the held instrument
  the call is \<open>manage_open_position\<close>, which may raise the stop loss or close the
  position.
\<close>

theorem buy_while_open:
  assumes "position st = Some p"
  shows "execute_trade mkt ''BUY'' strength current_price symb st
           = (if symbol p = symb then manage_open_position current_price symb st else st) \<and>
         (position (execute_trade mkt ''BUY'' strength current_price symb st) = None \<or>
          position (execute_trade mkt ''BUY'' strength current_price symb st) = Some p \<or>
          position (execute_trade mkt ''BUY'' strength current_price symb st)
            = Some (p\<lparr>stop_loss := entry_price p * 1.01\<rparr>)) \<and>
         (symbol p \<noteq> symb \<or>
          (current_price < entry_price p * 1.03 \<and> stop_loss p < current_price \<and>
           current_price < take_profit p)
          \<longrightarrow> execute_trade mkt ''BUY'' strength current_price symb st = st)"
proof -
  have slot: "position (manage_open_position current_price symb st) = None \<or>
      position (manage_open_position current_price symb st) = Some p \<or>
      position (manage_open_position current_price symb st)
        = Some (p\<lparr>stop_loss := entry_price p * 1.01\<rparr>)"
    using manage_position [OF assms, of current_price symb] trail_stop_cases [of current_price p]
    by auto
  show ?thesis
    unfolding execute_buy_open [OF assms]
    using slot assms manage_no_trigger [OF assms, of current_price symb]
    by auto
qed

theorem buy_while_open_witness:
  "position open_bot \<noteq> None \<and>
   execute_trade scenario_market ''BUY'' 16 100 ''ETH/USDT'' open_bot = open_bot \<and>
   execute_trade scenario_market ''BUY'' 16 100 ''BTC/USDT'' open_bot = open_bot"
proof -
  have p: "position open_bot = Some \<lparr>entry_price = 100, size_p = 1.28, stop_loss = 98.5,
                        take_profit = 108, type_p = ''BUY'', signal_strength = 16,
                        symbol = ''BTC/USDT''\<rparr>"
    by (simp add: open_bot_def)
  have other: "execute_trade scenario_market ''BUY'' 16 100 ''ETH/USDT'' open_bot = open_bot"
    using conjunct2 [OF conjunct2
        [OF buy_while_open [OF p, of scenario_market 16 100 "''ETH/USDT''"]]]
    by simp
  have same: "execute_trade scenario_market ''BUY'' 16 100 ''BTC/USDT'' open_bot = open_bot"
    using conjunct2 [OF conjunct2
        [OF buy_while_open [OF p, of scenario_market 16 100 "''BTC/USDT''"]]]
    by simp
  from p other same show ?thesis by simp
qed

text \<open>
  A BUY signal for the held instrument at a price below the stop loss closes the
  position: the balance and \<open>total_trades\<close> change.
\<close>

theorem buy_while_open_not_noop:
  "position open_bot \<noteq> None \<and>
   position (execute_trade scenario_market ''BUY'' 16 98 ''BTC/USDT'' open_bot) = None \<and>
   balance open_bot = 872 \<and>
   balance (execute_trade scenario_market ''BUY'' 16 98 ''BTC/USDT'' open_bot) = 997.44 \<and>
   total_trades open_bot = 0 \<and>
   total_trades (execute_trade scenario_market ''BUY'' 16 98 ''BTC/USDT'' open_bot) = 1"
  by (simp add: execute_trade_def manage_open_position_def trail_stop_def
      force_close_position_def Let_def open_bot_def)

text \<open>
  In exact arithmetic a BUY without a position and with a positive size, followed at
  once by a forced close at the same price, gives back the balance from before the BUY.
\<close>

lemma open_then_force_close_exact:
  assumes "position st = None"
      and "0 < calculate_position_size mkt st p (p * (1 - 0.015)) symb"
  shows "balance (force_close_position p reason symb
                     (execute_trade mkt ''BUY'' strength p symb st)) = balance st"
  unfolding execute_buy_flat [OF assms]
  by (simp add: force_close_position_def Let_def)

lemma execute_buy_flat_dbl:
  assumes "position st = None"
      and "0 < calculate_position_size_dbl score st p (dbl (p * dbl (1 - dbl 0.015)))"
  shows "execute_trade_dbl score ''BUY'' strength p symb st
           = st\<lparr>position := Some \<lparr>entry_price = p,
                    size_p = calculate_position_size_dbl score st p (dbl (p * dbl (1 - dbl 0.015))),
                    stop_loss = dbl (p * dbl (1 - dbl 0.015)),
                    take_profit = dbl (p * dbl (1 + (if strength \<ge> 10 then dbl 0.08 else dbl 0.06))),
                    type_p = ''BUY'', signal_strength = strength, symbol = symb\<rparr>,
                 balance := dbl (balance st - notional_dbl score st p),
                 trades := trades st @
                    [Buy_info symb p
                       (calculate_position_size_dbl score st p (dbl (p * dbl (1 - dbl 0.015))))
                       strength (if strength \<ge> 10 then dbl 0.08 else dbl 0.06) (dbl 0.015)]\<rparr>"
  using assms by (simp add: execute_trade_dbl_def Let_def notional_dbl_def)

lemma round_trip_balance_dbl:
  assumes "position st = None"
      and "0 < calculate_position_size_dbl score st p (dbl (p * dbl (1 - dbl 0.015)))"
  shows "balance (force_close_position_dbl p reason symb
                     (execute_trade_dbl score ''BUY'' strength p symb st))
           = dbl (dbl (balance st - notional_dbl score st p) + notional_dbl score st p)"
  unfolding execute_buy_flat_dbl [OF assms]
  by (simp add: force_close_position_dbl_def Let_def notional_dbl_def)

text \<open>
  Claim C8, amended. A BUY executed without a position and with a positive size,
  followed at once by a forced close at the same price, records a profit of exactly 0
  and empties the position slot. The final balance is the balance from before the BUY
  after the debit and the credit of the same amount, each rounded to a double: it lies
  within half a spacing of each of the two results of the pre-open balance, and is not
  always equal to it.
\<close>

theorem open_then_force_close_doubles:
  assumes "position st = None"
      and "0 < calculate_position_size_dbl score st p (dbl (p * dbl (1 - dbl 0.015)))"
  shows "position (execute_trade_dbl score ''BUY'' strength p symb st) \<noteq> None \<and>
         position (force_close_position_dbl p reason symb
                     (execute_trade_dbl score ''BUY'' strength p symb st)) = None \<and>
         profit_loss (last (trades (force_close_position_dbl p reason symb
                     (execute_trade_dbl score ''BUY'' strength p symb st)))) = Some 0 \<and>
         balance (force_close_position_dbl p reason symb
                     (execute_trade_dbl score ''BUY'' strength p symb st))
           = dbl (dbl (balance st - notional_dbl score st p) + notional_dbl score st p) \<and>
         \<bar>balance (force_close_position_dbl p reason symb
                     (execute_trade_dbl score ''BUY'' strength p symb st)) - balance st\<bar>
           \<le> ulp (balance st - notional_dbl score st p) / 2
             + ulp (dbl (balance st - notional_dbl score st p) + notional_dbl score st p) / 2"
proof -
  define x where "x = notional_dbl score st p"
  define t where "t = dbl (balance st - x)"
  have bal: "balance (force_close_position_dbl p reason symb
                     (execute_trade_dbl score ''BUY'' strength p symb st)) = dbl (t + x)"
    unfolding round_trip_balance_dbl [OF assms] by (simp add: t_def x_def)
  have "\<bar>dbl (t + x) - balance st\<bar>
          \<le> \<bar>dbl (t + x) - (t + x)\<bar> + \<bar>t - (balance st - x)\<bar>"
    by linarith
  also have "\<dots> \<le> ulp (t + x) / 2 + ulp (balance st - x) / 2"
    using dbl_error [of "t + x"] dbl_error [of "balance st - x"]
    by (simp add: t_def)
  finally have err: "\<bar>dbl (t + x) - balance st\<bar>
      \<le> ulp (balance st - x) / 2 + ulp (t + x) / 2"
    by simp
  have rest: "position (execute_trade_dbl score ''BUY'' strength p symb st) \<noteq> None \<and>
         position (force_close_position_dbl p reason symb
                     (execute_trade_dbl score ''BUY'' strength p symb st)) = None \<and>
         profit_loss (last (trades (force_close_position_dbl p reason symb
                     (execute_trade_dbl score ''BUY'' strength p symb st)))) = Some 0"
    unfolding execute_buy_flat_dbl [OF assms]
    by (simp add: force_close_position_dbl_def Let_def dbl_0)
  from rest bal err show ?thesis
    by (simp add: t_def x_def)
qed

theorem open_then_force_close_doubles_witness:
  "position main_bot = None \<and>
   balance main_bot = 1000 \<and>
   balance (force_close_position_dbl 100 ''Manual'' ''BTC/USDT''
              (execute_trade_dbl 80 ''BUY'' 16 100 ''BTC/USDT'' main_bot)) = 1000 \<and>
   profit_loss (last (trades (force_close_position_dbl 100 ''Manual'' ''BTC/USDT''
              (execute_trade_dbl 80 ''BUY'' 16 100 ''BTC/USDT'' main_bot)))) = Some 0"
proof -
  have flat: "position main_bot = None" by (simp add: main_bot_fields)
  have stop: "dbl (100 * dbl (1 - dbl 0.015)) = 197 / 2"
    by (simp add: dbl_eval round_half_even_def)
  have sz: "0 < calculate_position_size_dbl 80 main_bot 100 (dbl (100 * dbl (1 - dbl 0.015)))"
    unfolding stop size_at_100 by simp
  have x: "notional_dbl 80 main_bot 100 = 128"
    unfolding notional_dbl_def stop size_at_100
    by (simp add: dbl_eval round_half_even_def)
  have "dbl (dbl (balance main_bot - notional_dbl 80 main_bot 100) + notional_dbl 80 main_bot 100)
          = 1000"
    unfolding x main_bot_fields by (simp add: dbl_eval round_half_even_def)
  with open_then_force_close_doubles
      [OF flat sz, where strength = 16 and reason = "''Manual''" and symb = "''BTC/USDT''"] flat
  show ?thesis by (simp add: main_bot_fields)
qed

text \<open>
  After its first trade the bot holds 997.696; a BUY at 250 on a score of 80 followed
  by a forced close at 250 leaves 997.6959999999999.
\<close>

lemma stop_at_250: "dbl (250 * dbl (1 - dbl 0.015)) = 985 / 4"
  by (simp add: dbl_eval round_half_even_def)

lemma size_at_250:
  "calculate_position_size_dbl 80 after_stop_loss 250 (985 / 4)
     = 4601060693840931 / 9007199254740992"
  unfolding calculate_position_size_dbl_def Let_def after_stop_loss_fields
  by (simp add: dbl_eval round_half_even_def)

lemma notional_at_250:
  "notional_dbl 80 after_stop_loss 250 = 2246611666914517 / 17592186044416"
  unfolding notional_dbl_def stop_at_250 size_at_250
  by (simp add: dbl_eval round_half_even_def)

theorem round_trip_balance_differs:
  "position after_stop_loss = None \<and>
   0 < calculate_position_size_dbl 80 after_stop_loss 250 (dbl (250 * dbl (1 - dbl 0.015))) \<and>
   balance after_stop_loss = 8775826823884833 / 8796093022208 \<and>
   balance (force_close_position_dbl 250 ''Manual'' ''BTC/USDT''
              (execute_trade_dbl 80 ''BUY'' 16 250 ''BTC/USDT'' after_stop_loss))
     = 274244588246401 / 274877906944 \<and>
   balance (force_close_position_dbl 250 ''Manual'' ''BTC/USDT''
              (execute_trade_dbl 80 ''BUY'' 16 250 ''BTC/USDT'' after_stop_loss))
     < balance after_stop_loss"
proof -
  have flat: "position after_stop_loss = None" by (simp add: after_stop_loss_fields)
  have sz: "0 < calculate_position_size_dbl 80 after_stop_loss 250 (dbl (250 * dbl (1 - dbl 0.015)))"
    unfolding stop_at_250 size_at_250 by simp
  have bal: "balance (force_close_position_dbl 250 ''Manual'' ''BTC/USDT''
              (execute_trade_dbl 80 ''BUY'' 16 250 ''BTC/USDT'' after_stop_loss))
     = 274244588246401 / 274877906944"
    unfolding round_trip_balance_dbl [OF flat sz] notional_at_250 after_stop_loss_fields
    by (simp add: dbl_eval round_half_even_def)
  from flat sz bal show ?thesis
    by (simp add: after_stop_loss_fields)
qed

text \<open>
  Claim C9. An executed BUY debits the balance by size times entry price and leaves
  \<open>total_trades\<close>, \<open>winning_trades\<close> and \<open>initial_balance\<close> as they were. Every
  call of \<open>execute_trade\<close>, \<open>manage_open_position\<close> and \<open>force_close_position\<close>
  either leaves both counters as they were or closes the position; for \<open>execute_trade\<close>
  this is stated on the states the bot reaches (\<open>position_ok\<close>).
\<close>

theorem opening_debits_only:
  "(position st = None \<and> 0 < calculate_position_size mkt st p (p * (1 - 0.015)) symb \<longrightarrow>
      (\<exists>q. position (execute_trade mkt ''BUY'' strength p symb st) = Some q \<and>
           entry_price q = p \<and>
           size_p q = calculate_position_size mkt st p (p * (1 - 0.015)) symb \<and>
           balance (execute_trade mkt ''BUY'' strength p symb st)
             = balance st - size_p q * entry_price q) \<and>
      counters_kept st (execute_trade mkt ''BUY'' strength p symb st) \<and>
      initial_balance (execute_trade mkt ''BUY'' strength p symb st) = initial_balance st) \<and>
   (position_ok st \<longrightarrow>
      counters_kept st (execute_trade mkt signal strength c symb st) \<or>
      closed_one st (execute_trade mkt signal strength c symb st)) \<and>
   (counters_kept st (manage_open_position c symb st) \<or>
    closed_one st (manage_open_position c symb st)) \<and>
   (counters_kept st (force_close_position c reason symb st) \<or>
    closed_one st (force_close_position c reason symb st))"
proof -
  have "(\<exists>q. position (execute_trade mkt ''BUY'' strength p symb st) = Some q \<and>
           entry_price q = p \<and>
           size_p q = calculate_position_size mkt st p (p * (1 - 0.015)) symb \<and>
           balance (execute_trade mkt ''BUY'' strength p symb st)
             = balance st - size_p q * entry_price q) \<and>
      counters_kept st (execute_trade mkt ''BUY'' strength p symb st) \<and>
      initial_balance (execute_trade mkt ''BUY'' strength p symb st) = initial_balance st"
    if "position st = None" "0 < calculate_position_size mkt st p (p * (1 - 0.015)) symb"
    unfolding execute_buy_flat [OF that]
    by (simp add: counters_kept_def)
  then show ?thesis
    using execute_counters [of st mkt signal strength c symb]
      manage_counters [of st c symb] force_close_counters [of st c reason symb]
    by blast
qed

theorem opening_debits_only_witness:
  "position flat_bot = None \<and>
   balance (execute_trade scenario_market ''BUY'' 16 100 ''BTC/USDT'' flat_bot)
     = balance flat_bot - 1.28 * 100 \<and>
   counters_kept flat_bot (execute_trade scenario_market ''BUY'' 16 100 ''BTC/USDT'' flat_bot) \<and>
   position_ok open_bot \<and>
   closed_one open_bot (execute_trade scenario_market ''SELL'' 5 101 ''BTC/USDT'' open_bot)"
proof -
  have flat: "position flat_bot = None" by (simp add: flat_bot_def)
  have sz: "calculate_position_size scenario_market flat_bot 100 (100 * (1 - 0.015)) ''BTC/USDT'' = 1.28"
    using size_scenario [of flat_bot scenario_market "''BTC/USDT''"] scenario_score_80
    by (simp add: flat_bot_def)
  have debit: "balance (execute_trade scenario_market ''BUY'' 16 100 ''BTC/USDT'' flat_bot)
       = balance flat_bot - 1.28 * 100 \<and>
     counters_kept flat_bot (execute_trade scenario_market ''BUY'' 16 100 ''BTC/USDT'' flat_bot)"
    using conjunct1 [OF opening_debits_only
        [where st = flat_bot and mkt = scenario_market and p = 100
          and symb = "''BTC/USDT''" and strength = 16]]
      flat sz
    by auto
  have "\<not> counters_kept open_bot
          (execute_trade scenario_market ''SELL'' 5 101 ''BTC/USDT'' open_bot)"
    by (simp add: counters_kept_def execute_trade_def Let_def open_bot_def)
  then have closing: "closed_one open_bot
          (execute_trade scenario_market ''SELL'' 5 101 ''BTC/USDT'' open_bot)"
    using conjunct1 [OF conjunct2 [OF opening_debits_only
        [where st = open_bot and mkt = scenario_market and signal = "''SELL''"
          and symb = "''BTC/USDT''" and strength = 5 and c = 101]]]
      position_ok_open_bot
    by blast
  from flat debit closing position_ok_open_bot show ?thesis by simp
qed

section \<open>Volatility term\<close>

lemma two_level_frame_length: "length two_level_frame = 50"
  by (simp add: two_level_frame_def)

lemma two_level_code: "volatility_term two_level_frame = Fin (20 / 3)"
  unfolding two_level_frame_def bar_of_def by code_simp

lemma two_level_spec: "row_ratio_volatility_term two_level_frame = Fin (15 / 2)"
  unfolding two_level_frame_def bar_of_def by code_simp

text \<open>
  On the two-level frame the volatility term of the source is 20/3, and 1000 times
  the mean of the per-row ratios is 15/2.
\<close>

theorem volatility_not_row_ratio:
  "50 \<le> length two_level_frame \<and>
   volatility_term two_level_frame = Fin (20 / 3) \<and>
   row_ratio_volatility_term two_level_frame = Fin (15 / 2) \<and>
   volatility_term two_level_frame \<noteq> row_ratio_volatility_term two_level_frame"
  by (simp add: two_level_frame_length two_level_code two_level_spec)

text \<open>
  Claim C6, amended. On a frame of at least 50 rows the volatility term of the
  opportunity score is 1000 times the mean range (high - low) divided by the mean close:
  a ratio of two means, not the mean of the per-row ratios. When the closes sum to zero
  the term is an infinity of the sign of the mean range, or 20 (the default 0.02) when
  the mean range is zero too.
\<close>

theorem volatility_ratio_of_means:
  assumes "50 \<le> length df"
  shows "volatility_term df =
     (if sum_list (map close df) \<noteq> 0
      then Fin (1000 * ((sum_list (map (\<lambda>r. high r - low r) df) / real (length df))
                        / (sum_list (map close df) / real (length df))))
      else if 0 < sum_list (map (\<lambda>r. high r - low r) df) then PInf
      else if sum_list (map (\<lambda>r. high r - low r) df) < 0 then NInf
      else Fin 20)"
proof -
  have "df \<noteq> []" using assms by auto
  then show ?thesis
    by (simp add: volatility_term_def volatility_def mean_def fdiv_def fillna_def isna_def
        fmul_def zero_less_divide_iff divide_less_0_iff)
qed

theorem volatility_ratio_of_means_witness:
  "50 \<le> length two_level_frame \<and>
   volatility_term two_level_frame = Fin (1000 * ((50 / 50) / (7500 / 50)))"
proof -
  have len: "50 \<le> length two_level_frame" by (simp add: two_level_frame_length)
  have s1: "sum_list (map close two_level_frame) = 7500"
    by (simp add: two_level_frame_def bar_of_def sum_list_replicate)
  have s2: "sum_list (map (\<lambda>r. high r - low r) two_level_frame) = 50"
    by (simp add: two_level_frame_def bar_of_def sum_list_replicate)
  show ?thesis
    using volatility_ratio_of_means [OF len] len
    by (simp add: s1 s2 two_level_frame_length)
qed

section \<open>Bollinger bands: the rows without a full window\<close>

text \<open>
  On a series of at least 20 closes, the rows without a full window (the first 19) hold
  the close itself; a series shorter than 20 holds 0 in every row, which the fill loop
  of \<^verbatim>\<open>calculate_indicators\<close> does not replace, since 0 is not NaN.
\<close>

lemma fillna_series_zeros:
  "length ds = n \<Longrightarrow> fillna_series (replicate n (Fin 0)) ds = replicate n (Fin 0)"
  by (induction n arbitrary: ds)
     (auto simp: fillna_series_def fillna_def isna_def length_Suc_conv)

lemma bollinger_short:
  assumes "length closes < 20"
  shows "calculate_indicators_BB closes
           = (replicate (length closes) (Fin 0), replicate (length closes) (Fin 0))"
  using assms
  by (simp add: calculate_indicators_BB_def calculate_bollinger_bands_def fillna_series_zeros)

lemma bollinger_early_rows:
  assumes "20 \<le> length closes" and "i < 19"
  shows "fst (calculate_indicators_BB closes) ! i = Fin (closes ! i) \<and>
         snd (calculate_indicators_BB closes) ! i = Fin (closes ! i)"
proof -
  have i: "i < length closes" using assms by simp
  have lt: "Suc i < 20" using assms by simp
  have rm: "rolling_mean 20 closes ! i = NaN"
    using i lt by (simp add: rolling_mean_def)
  have rs: "rolling_std 20 closes ! i = NaN"
    using i lt by (simp add: rolling_std_def)
  have len: "length (rolling_mean 20 closes) = length closes"
    "length (rolling_std 20 closes) = length closes"
    by (simp_all add: rolling_mean_def rolling_std_def)
  show ?thesis
    using assms i rm rs len
    by (simp add: calculate_indicators_BB_def calculate_bollinger_bands_def Let_def
        fillna_series_def fillna_def isna_def fadd_def fsub_def fneg_def fmul_def)
qed

text \<open>
  Claim C7. The claim asks for the close in every row of a band that has no full
  20-bar window. On the five closes 100, ..., 104 both bands are 0 in every row.
\<close>

theorem bollinger_short_series_zero:
  "calculate_indicators_BB [100, 101, 102, 103, 104]
     = ([Fin 0, Fin 0, Fin 0, Fin 0, Fin 0], [Fin 0, Fin 0, Fin 0, Fin 0, Fin 0])"
  using bollinger_short [of "[100, 101, 102, 103, 104]"]
  by (simp add: numeral_eq_Suc)

end
